theory Spec2Isabelle
  imports Main
begin

section \<open>Values, errors and the heap\<close>

text \<open>
  The notebook \<^verbatim>\<open>demo.ipynb\<close> defines one function, \<^verbatim>\<open>train_estimator\<close>, with the
  nested \<^verbatim>\<open>train_step\<close>. Everything it calls lives in \<^verbatim>\<open>utils\<close>, \<^verbatim>\<open>estimators\<close> and the
  tensor framework; those capabilities are parameters of the model (the record
  \<open>externals\<close>), uninterpreted. Tensors, floats and arrays are values of an
  uninterpreted type \<open>'v\<close>; the random generator is a value of type \<open>'r\<close>.
\<close>

type_synonym addr = nat

datatype 'v pyval = PNone | PBool bool | PInt int | PStr string | PVal 'v

type_synonym 'v dict = "string \<rightharpoonup> 'v pyval"

datatype 'v error = KeyError "'v pyval" | IndexError | TypeError | AttributeError | Failure string

text \<open>What a constructor of \<^verbatim>\<open>BASELINES\<close> returns: \<^verbatim>\<open>None\<close>, a network (an
  \<^verbatim>\<open>nn.Module\<close>, by its address) or the function \<^verbatim>\<open>log_prob_gaussian\<close>.\<close>

datatype baseline_obj = NoBaseline | Module addr | LogProbGaussian

datatype optimizer = Adam (target: addr)

text \<open>The calls to the external capabilities, in the order they are made. A call that
  produces a value the loop uses is logged with its outcome.\<close>

datatype 'v event =
    NewCritic "'v pyval" "'v pyval" "'v dict"
  | NewBaseline "'v pyval"
  | NewAdam addr "'v pyval"
  | ZeroGrad addr
  | Sample "'v pyval" 'v "'v pyval" "'v pyval" "'v error + 'v \<times> 'v"
  | Estimate "'v pyval" 'v 'v addr baseline_obj "'v pyval" string "'v dict" "'v error + 'v"
  | Backward 'v
  | Step addr

text \<open>The heap: the networks (by address), their accumulated gradients, the optimizers'
  own state (by the address of the network they optimize), the next free address, the
  random generator and the log of calls.\<close>

record ('v, 'r) world =
  params :: "addr \<rightharpoonup> 'v"
  grads :: "addr \<rightharpoonup> 'v"
  moments :: "addr \<rightharpoonup> 'v"
  fresh :: addr
  rng :: 'r
  events :: "'v event list"

type_synonym ('v, 'r, 'a) action = "('v, 'r) world \<Rightarrow> ('v error + 'a) \<times> ('v, 'r) world"

definition succeed :: "'a \<Rightarrow> ('v, 'r, 'a) action" where
  "succeed x = (\<lambda>s. (Inr x, s))"

definition raise :: "'v error \<Rightarrow> ('v, 'r, 'a) action" where
  "raise e = (\<lambda>s. (Inl e, s))"

definition lift :: "'v error + 'a \<Rightarrow> ('v, 'r, 'a) action" where
  "lift r = (\<lambda>s. (r, s))"

text \<open>Sequencing: an exception of the first part ends the whole.\<close>

definition and_then :: "('v, 'r, 'a) action \<Rightarrow> ('a \<Rightarrow> ('v, 'r, 'b) action) \<Rightarrow> ('v, 'r, 'b) action" where
  "and_then m f = (\<lambda>s. case m s of (Inl e, s') \<Rightarrow> (Inl e, s') | (Inr x, s') \<Rightarrow> f x s')"

definition call :: "'v event \<Rightarrow> ('v, 'r, unit) action" where
  "call e = (\<lambda>s. (Inr (), s\<lparr>events := events s @ [e]\<rparr>))"

definition draw :: "('r \<Rightarrow> ('v error + 'a) \<times> 'r) \<Rightarrow> ('v, 'r, 'a) action" where
  "draw f = (\<lambda>s. case f (rng s) of (r, g) \<Rightarrow> (r, s\<lparr>rng := g\<rparr>))"

text \<open>\<^verbatim>\<open>d[k]\<close> and \<^verbatim>\<open>d.get(k, default)\<close>.\<close>

definition getitem :: "'v dict \<Rightarrow> string \<Rightarrow> 'v error + 'v pyval" where
  "getitem d k = (case d k of None \<Rightarrow> Inl (KeyError (PStr k)) | Some v \<Rightarrow> Inr v)"

definition get :: "'v dict \<Rightarrow> string \<Rightarrow> 'v pyval \<Rightarrow> 'v pyval" where
  "get d k dflt = (case d k of None \<Rightarrow> dflt | Some v \<Rightarrow> v)"

text \<open>\<^verbatim>\<open>range(n)\<close>: the indices \<open>0, ..., n - 1\<close>, none when \<open>n \<le> 0\<close>; a \<^verbatim>\<open>bool\<close> is an
  \<^verbatim>\<open>int\<close>; anything else is a \<^verbatim>\<open>TypeError\<close>.\<close>

fun py_range :: "'v pyval \<Rightarrow> 'v error + nat list" where
  "py_range (PInt n) = Inr [0..<nat n]"
| "py_range (PBool b) = Inr [0..<(if b then 1 else 0)]"
| "py_range _ = Inl TypeError"

text \<open>\<^verbatim>\<open>a[i]\<close> on an array, for \<open>i \<ge> 0\<close>.\<close>

definition index :: "'a list \<Rightarrow> nat \<Rightarrow> 'v error + 'a" where
  "index xs i = (if i < length xs then Inr (xs ! i) else Inl IndexError)"

section \<open>The external capabilities\<close>

text \<open>
  The module-level variables \<^verbatim>\<open>dim\<close> and \<^verbatim>\<open>device\<close> (the notebook sets them to \<open>20\<close> and
  \<^verbatim>\<open>"cuda:4"\<close>, at lines 60 and 61), and the functions of \<^verbatim>\<open>utils\<close>, \<^verbatim>\<open>estimators\<close> and the
  framework that \<^verbatim>\<open>train_estimator\<close> calls. Each may raise. The constructors and the
  sampler draw from the random generator. A constructor returns the network it builds
  (its architecture and its parameters, one value); \<open>to_device\<close> is \<^verbatim>\<open>.to(device)\<close>;
  \<open>Adam_init\<close> gives the state of a new optimizer and \<open>Adam_step\<close> its update of that
  state and of the parameters, from the gradient. The estimator gets the critic by its
  address and the baseline object, with the networks to read; \<open>negate\<close> is the unary
  minus on tensors; \<open>autograd\<close> gives the gradients that \<^verbatim>\<open>loss.backward()\<close> adds, by
  network; \<open>detach_cpu_numpy\<close> is \<^verbatim>\<open>mi.detach().cpu().numpy()\<close>. The estimator and the
  gradient computation read the networks and change none.
\<close>

record ('v, 'r) externals =
  dim :: int
  device :: string
  SeparableCritic :: "'v pyval \<Rightarrow> 'v dict \<Rightarrow> 'r \<Rightarrow> ('v error + 'v) \<times> 'r"
  ConcatCritic :: "'v pyval \<Rightarrow> 'v dict \<Rightarrow> 'r \<Rightarrow> ('v error + 'v) \<times> 'r"
  mlp :: "'v dict \<Rightarrow> 'r \<Rightarrow> ('v error + 'v) \<times> 'r"
  to_device :: "'v \<Rightarrow> string \<Rightarrow> 'v error + 'v"
  Adam_init :: "'v pyval \<Rightarrow> 'v error + 'v"
  Adam_step :: "'v \<Rightarrow> 'v \<Rightarrow> 'v \<Rightarrow> 'v error + 'v \<times> 'v"
  mi_schedule :: "'v pyval \<Rightarrow> 'v error + 'v"
  mi_to_rho :: "'v pyval \<Rightarrow> 'v \<Rightarrow> 'v error + 'v list"
  sample_correlated_gaussian ::
    "'v pyval \<Rightarrow> 'v \<Rightarrow> 'v pyval \<Rightarrow> 'v pyval \<Rightarrow> 'r \<Rightarrow> ('v error + 'v \<times> 'v) \<times> 'r"
  estimate_mutual_information ::
    "'v pyval \<Rightarrow> 'v \<Rightarrow> 'v \<Rightarrow> addr \<Rightarrow> baseline_obj \<Rightarrow> 'v pyval \<Rightarrow> string \<Rightarrow> 'v dict \<Rightarrow>
     (addr \<rightharpoonup> 'v) \<Rightarrow> 'v error + 'v"
  negate :: "'v \<Rightarrow> 'v error + 'v"
  autograd :: "'v \<Rightarrow> (addr \<rightharpoonup> 'v) \<Rightarrow> 'v error + (addr \<rightharpoonup> 'v)"
  accumulate :: "'v \<Rightarrow> 'v \<Rightarrow> 'v"
  detach_cpu_numpy :: "'v \<Rightarrow> 'v error + 'v"

section \<open>Networks and optimizers\<close>

text \<open>A network built by a constructor is a new object: it gets the next free address.\<close>

definition new_module :: "'v \<Rightarrow> ('v, 'r, addr) action" where
  "new_module m = (\<lambda>s. (Inr (fresh s), s\<lparr>params := (params s)(fresh s \<mapsto> m), fresh := Suc (fresh s)\<rparr>))"

text \<open>\<^verbatim>\<open>CRITICS = {'separable': SeparableCritic, 'concat': ConcatCritic}\<close>\<close>

definition CRITICS ::
  "('v, 'r) externals \<Rightarrow> 'v pyval \<rightharpoonup> ('v pyval \<Rightarrow> 'v dict \<Rightarrow> 'r \<Rightarrow> ('v error + 'v) \<times> 'r)" where
  "CRITICS env = [PStr ''separable'' \<mapsto> SeparableCritic env, PStr ''concat'' \<mapsto> ConcatCritic env]"

text \<open>\<^verbatim>\<open>CRITICS[key](rho=rho, **kw).to(device)\<close>: the lookup first, then the call (a
  second \<^verbatim>\<open>rho\<close> among the keyword arguments is a \<^verbatim>\<open>TypeError\<close>), then the move to the
  device.\<close>

definition new_critic ::
  "('v, 'r) externals \<Rightarrow> 'v pyval \<Rightarrow> 'v pyval \<Rightarrow> 'v dict \<Rightarrow> ('v, 'r, addr) action" where
  "new_critic env key rho kw =
     (case CRITICS env key of
        None \<Rightarrow> raise (KeyError key)
      | Some ctor \<Rightarrow>
          if kw ''rho'' \<noteq> None then raise TypeError
          else and_then (call (NewCritic key rho kw)) (\<lambda>_.
               and_then (draw (ctor rho kw)) (\<lambda>m.
               and_then (lift (to_device env m (device env))) (\<lambda>m'.
               new_module m'))))"

text \<open>
  \<^verbatim>\<open>BASELINES = {'constant': lambda: None,
    'unnormalized': lambda: mlp(dim=dim, hidden_dim=512, output_dim=1, layers=2,
                                activation='relu').to(device),
    'gaussian': lambda: log_prob_gaussian}\<close>

  Modelled from the spec: \<^verbatim>\<open>mlp\<close> and \<^verbatim>\<open>log_prob_gaussian\<close> are in \<^verbatim>\<open>utils\<close>, which is
  not among the sources. By the spec the baseline is "absent, a learned scalar function
  of x, or a closed-form function", and only the learned one owns parameters: \<^verbatim>\<open>mlp\<close>
  returns a network (an \<^verbatim>\<open>nn.Module\<close>), \<^verbatim>\<open>log_prob_gaussian\<close> is a plain function.
\<close>

definition BASELINES :: "('v, 'r) externals \<Rightarrow> 'v pyval \<rightharpoonup> ('v, 'r, baseline_obj) action" where
  "BASELINES env =
     [PStr ''constant'' \<mapsto> succeed NoBaseline,
      PStr ''unnormalized'' \<mapsto>
        and_then (draw (mlp env [''dim'' \<mapsto> PInt (dim env), ''hidden_dim'' \<mapsto> PInt 512,
                                   ''output_dim'' \<mapsto> PInt 1, ''layers'' \<mapsto> PInt 2,
                                   ''activation'' \<mapsto> PStr ''relu''])) (\<lambda>m.
        and_then (lift (to_device env m (device env))) (\<lambda>m'.
        and_then (new_module m') (\<lambda>a.
        succeed (Module a)))),
      PStr ''gaussian'' \<mapsto> succeed LogProbGaussian]"

text \<open>\<^verbatim>\<open>BASELINES[key]()\<close>\<close>

definition new_baseline :: "('v, 'r) externals \<Rightarrow> 'v pyval \<Rightarrow> ('v, 'r, baseline_obj) action" where
  "new_baseline env key =
     (case BASELINES env key of
        None \<Rightarrow> raise (KeyError key)
      | Some lam \<Rightarrow> and_then (call (NewBaseline key)) (\<lambda>_. lam))"

text \<open>\<^verbatim>\<open>isinstance(baseline, nn.Module)\<close>\<close>

fun isinstance_Module :: "baseline_obj \<Rightarrow> bool" where
  "isinstance_Module (Module a) = True"
| "isinstance_Module _ = False"

text \<open>\<^verbatim>\<open>optim.Adam(m.parameters(), lr=opt_params['learning_rate'])\<close>: the optimizer holds
  the parameters of the one network it is given.\<close>

definition new_Adam :: "('v, 'r) externals \<Rightarrow> addr \<Rightarrow> 'v dict \<Rightarrow> ('v, 'r, optimizer) action" where
  "new_Adam env a opt_params =
     and_then (lift (getitem opt_params ''learning_rate'')) (\<lambda>lr.
     and_then (call (NewAdam a lr)) (\<lambda>_.
     and_then (lift (Adam_init env lr)) (\<lambda>st.
     (\<lambda>s. (Inr (Adam a), s\<lparr>moments := (moments s)(a \<mapsto> st)\<rparr>)))))"

text \<open>\<^verbatim>\<open>opt.zero_grad()\<close>: the gradients of the optimizer's parameters are dropped (set to
  \<^verbatim>\<open>None\<close>, the framework's default).\<close>

definition zero_grad :: "optimizer \<Rightarrow> ('v, 'r, unit) action" where
  "zero_grad opt =
     and_then (call (ZeroGrad (target opt))) (\<lambda>_.
     (\<lambda>s. (Inr (), s\<lparr>grads := (grads s)(target opt := None)\<rparr>)))"

text \<open>\<^verbatim>\<open>opt.step()\<close>: the optimizer's parameters that have a gradient are updated, and
  the optimizer's own state with them.\<close>

definition step :: "('v, 'r) externals \<Rightarrow> optimizer \<Rightarrow> ('v, 'r, unit) action" where
  "step env opt =
     and_then (call (Step (target opt))) (\<lambda>_.
     (\<lambda>s. case (params s (target opt), grads s (target opt), moments s (target opt)) of
            (Some p, Some g, Some m) \<Rightarrow>
              (case Adam_step env m p g of
                 Inl e \<Rightarrow> (Inl e, s)
               | Inr (m', p') \<Rightarrow>
                   (Inr (), s\<lparr>params := (params s)(target opt \<mapsto> p'),
                              moments := (moments s)(target opt \<mapsto> m')\<rparr>))
          | _ \<Rightarrow> (Inr (), s)))"

text \<open>A method call on \<^verbatim>\<open>opt_base\<close>, which is \<^verbatim>\<open>None\<close> when the baseline is no network.\<close>

fun method_of :: "optimizer option \<Rightarrow> (optimizer \<Rightarrow> ('v, 'r, unit) action) \<Rightarrow> ('v, 'r, unit) action" where
  "method_of None f = raise AttributeError"
| "method_of (Some opt) f = f opt"

text \<open>\<^verbatim>\<open>loss.backward()\<close>: each gradient is added to what the network has accumulated.\<close>

definition accumulated ::
  "('v \<Rightarrow> 'v \<Rightarrow> 'v) \<Rightarrow> (addr \<rightharpoonup> 'v) \<Rightarrow> (addr \<rightharpoonup> 'v) \<Rightarrow> (addr \<rightharpoonup> 'v)" where
  "accumulated add g old =
     (\<lambda>a. case g a of
            None \<Rightarrow> old a
          | Some d \<Rightarrow> Some (case old a of None \<Rightarrow> d | Some d0 \<Rightarrow> add d0 d))"

definition backward :: "('v, 'r) externals \<Rightarrow> 'v \<Rightarrow> ('v, 'r, unit) action" where
  "backward env loss =
     and_then (call (Backward loss)) (\<lambda>_.
     (\<lambda>s. case autograd env loss (params s) of
            Inl e \<Rightarrow> (Inl e, s)
          | Inr g \<Rightarrow> (Inr (), s\<lparr>grads := accumulated (accumulate env) g (grads s)\<rparr>)))"

text \<open>The call of \<^verbatim>\<open>sample_correlated_gaussian\<close>, logged with the batch it returned.\<close>

definition sample ::
  "('v, 'r) externals \<Rightarrow> 'v pyval \<Rightarrow> 'v \<Rightarrow> 'v pyval \<Rightarrow> 'v pyval \<Rightarrow> ('v, 'r, 'v \<times> 'v) action" where
  "sample env d rho bs cubic =
     (\<lambda>s. case sample_correlated_gaussian env d rho bs cubic (rng s) of
            (r, g) \<Rightarrow> (r, s\<lparr>rng := g, events := events s @ [Sample d rho bs cubic r]\<rparr>))"

text \<open>The call of \<^verbatim>\<open>estimate_mutual_information\<close>; a \<^verbatim>\<open>device\<close> among \<^verbatim>\<open>**kwargs\<close> would
  be a second value for that keyword, a \<^verbatim>\<open>TypeError\<close>.\<close>

definition estimate ::
  "('v, 'r) externals \<Rightarrow> 'v pyval \<Rightarrow> 'v \<Rightarrow> 'v \<Rightarrow> addr \<Rightarrow> baseline_obj \<Rightarrow> 'v pyval \<Rightarrow> string \<Rightarrow>
   'v dict \<Rightarrow> ('v, 'r, 'v) action" where
  "estimate env name x y c b alpha dev kwargs =
     (if kwargs ''device'' \<noteq> None then raise TypeError
      else (\<lambda>s. let r = estimate_mutual_information env name x y c b alpha dev kwargs (params s)
                in (r, s\<lparr>events := events s @ [Estimate name x y c b alpha dev kwargs r]\<rparr>)))"

section \<open>The training step and the training loop\<close>

text \<open>What \<^verbatim>\<open>train_step\<close> closes over: the variables \<^verbatim>\<open>critic\<close>, \<^verbatim>\<open>baseline\<close>, \<^verbatim>\<open>opt_crit\<close>
  and \<^verbatim>\<open>opt_base\<close> of \<^verbatim>\<open>train_estimator\<close>, and its \<^verbatim>\<open>**kwargs\<close>.\<close>

record closure =
  critic :: addr
  baseline :: baseline_obj
  opt_crit :: optimizer
  opt_base :: "optimizer option"

text \<open>Lines 90 to 115, statement by statement. The sampler's call is the statement
  \<^verbatim>\<open>x, y = sample_correlated_gaussian(...)\<close>, whose keyword arguments are evaluated from
  left to right; \<open>critic'\<close> is the variable \<^verbatim>\<open>critic_\<close>.\<close>

definition train_step ::
  "('v, 'r) externals \<Rightarrow> closure \<Rightarrow> 'v dict \<Rightarrow> 'v \<Rightarrow> 'v dict \<Rightarrow> 'v dict \<Rightarrow> ('v, 'r, 'v) action" where
  "train_step env c kwargs rho data_params mi_params =
     and_then (zero_grad (opt_crit c)) (\<lambda>_.
     and_then (if isinstance_Module (baseline c) then method_of (opt_base c) zero_grad
               else succeed ()) (\<lambda>_.
     and_then (lift (getitem mi_params ''critic'')) (\<lambda>name.
     and_then (if name = PStr ''conditional''
               then new_critic env (PStr ''conditional'') (PVal rho) Map.empty
               else succeed (critic c)) (\<lambda>critic'.
     and_then (lift (getitem data_params ''dim'')) (\<lambda>d.
     and_then (lift (getitem data_params ''batch_size'')) (\<lambda>bs.
     and_then (lift (getitem data_params ''cubic'')) (\<lambda>cubic.
     and_then (sample env d rho bs cubic) (\<lambda>(x, y).
     and_then (lift (getitem mi_params ''estimator'')) (\<lambda>name.
     and_then (estimate env name x y critic' (baseline c) (get mi_params ''alpha_logit'' PNone)
                 ''cuda:4'' kwargs) (\<lambda>mi.
     and_then (lift (negate env mi)) (\<lambda>loss.
     and_then (backward env loss) (\<lambda>_.
     and_then (step env (opt_crit c)) (\<lambda>_.
     and_then (if isinstance_Module (baseline c) then method_of (opt_base c) (step env)
               else succeed ()) (\<lambda>_.
     succeed mi))))))))))))))"

text \<open>Lines 123 and 124: the body of the \<^verbatim>\<open>for\<close> loop, up to the \<^verbatim>\<open>append\<close>.\<close>

definition iteration ::
  "('v, 'r) externals \<Rightarrow> closure \<Rightarrow> 'v dict \<Rightarrow> 'v list \<Rightarrow> 'v dict \<Rightarrow> 'v dict \<Rightarrow> nat \<Rightarrow>
   ('v, 'r, 'v) action" where
  "iteration env c kwargs rhos data_params mi_params i =
     and_then (lift (index rhos i)) (\<lambda>rho.
     and_then (train_step env c kwargs rho data_params mi_params) (\<lambda>mi.
     lift (detach_cpu_numpy env mi)))"

text \<open>\<^verbatim>\<open>for i in ...: estimates.append(body(i))\<close>\<close>

fun for_loop ::
  "(nat \<Rightarrow> ('v, 'r, 'v) action) \<Rightarrow> nat list \<Rightarrow> 'v list \<Rightarrow> ('v, 'r, 'v list) action" where
  "for_loop body [] estimates s = (Inr estimates, s)"
| "for_loop body (i # rest) estimates s =
     (case body i s of
        (Inl e, s') \<Rightarrow> (Inl e, s')
      | (Inr mi, s') \<Rightarrow> for_loop body rest (estimates @ [mi]) s')"

text \<open>Lines 79 to 88 and 118 to 119: what \<^verbatim>\<open>train_estimator\<close> does before the loop. It
  builds the critic, the baseline and the optimizers, which \<^verbatim>\<open>train_step\<close> closes over,
  and the schedule of correlations.\<close>

definition prepare ::
  "('v, 'r) externals \<Rightarrow> 'v dict \<Rightarrow> 'v dict \<Rightarrow> 'v dict \<Rightarrow> 'v dict \<Rightarrow>
   ('v, 'r, closure \<times> 'v list) action" where
  "prepare env critic_params data_params mi_params opt_params =
     and_then (new_critic env (get mi_params ''critic'' (PStr ''separable'')) PNone critic_params)
       (\<lambda>crit.
     and_then (new_baseline env (get mi_params ''baseline'' (PStr ''constant''))) (\<lambda>base.
     and_then (new_Adam env crit opt_params) (\<lambda>oc.
     and_then (case base of
                 Module b \<Rightarrow> and_then (new_Adam env b opt_params) (\<lambda>ob. succeed (Some ob))
               | _ \<Rightarrow> succeed None) (\<lambda>ob.
     and_then (lift (getitem opt_params ''iterations'')) (\<lambda>n.
     and_then (lift (mi_schedule env n)) (\<lambda>mis.
     and_then (lift (getitem data_params ''dim'')) (\<lambda>d.
     and_then (lift (mi_to_rho env d mis)) (\<lambda>rhos.
     succeed (\<lparr>critic = crit, baseline = base, opt_crit = oc, opt_base = ob\<rparr>, rhos)))))))))"

text \<open>\<^verbatim>\<open>np.array(estimates)\<close>: the one-dimensional array of the estimates, in the order
  of the list. An array is the list of its items here, as the schedule \<^verbatim>\<open>rhos\<close> is.\<close>

definition np_array :: "'v list \<Rightarrow> 'v list" where
  "np_array estimates = estimates"

text \<open>Lines 121 to 127: the loop and the result.\<close>

definition training ::
  "('v, 'r) externals \<Rightarrow> closure \<Rightarrow> 'v dict \<Rightarrow> 'v list \<Rightarrow> 'v dict \<Rightarrow> 'v dict \<Rightarrow> 'v dict \<Rightarrow>
   ('v, 'r, 'v list) action" where
  "training env c kwargs rhos data_params mi_params opt_params =
     and_then (lift (getitem opt_params ''iterations'')) (\<lambda>n.
     and_then (lift (py_range n)) (\<lambda>indices.
     and_then (for_loop (iteration env c kwargs rhos data_params mi_params) indices [])
       (\<lambda>estimates.
     succeed (np_array estimates))))"

definition train_estimator ::
  "('v, 'r) externals \<Rightarrow> 'v dict \<Rightarrow> 'v dict \<Rightarrow> 'v dict \<Rightarrow> 'v dict \<Rightarrow> 'v dict \<Rightarrow>
   ('v, 'r, 'v list) action" where
  "train_estimator env critic_params data_params mi_params opt_params kwargs =
     and_then (prepare env critic_params data_params mi_params opt_params) (\<lambda>(c, rhos).
     training env c kwargs rhos data_params mi_params opt_params)"

section \<open>Reading the log\<close>

text \<open>What a call passed or produced, as a list with one element, and nothing for the
  other calls; \<open>collect\<close> gathers these over a log, in order.\<close>

definition collect :: "('e \<Rightarrow> 'a list) \<Rightarrow> 'e list \<Rightarrow> 'a list" where
  "collect f evs = concat (map f evs)"

fun critic_rho :: "'v event \<Rightarrow> 'v pyval list" where
  "critic_rho (NewCritic key rho kw) = [rho]"
| "critic_rho _ = []"

fun critic_key :: "'v event \<Rightarrow> 'v pyval list" where
  "critic_key (NewCritic key rho kw) = [key]"
| "critic_key _ = []"

fun baseline_key :: "'v event \<Rightarrow> 'v pyval list" where
  "baseline_key (NewBaseline key) = [key]"
| "baseline_key _ = []"

fun adam_target :: "'v event \<Rightarrow> addr list" where
  "adam_target (NewAdam a lr) = [a]"
| "adam_target _ = []"

fun sample_rho :: "'v event \<Rightarrow> 'v list" where
  "sample_rho (Sample d rho bs cubic r) = [rho]"
| "sample_rho _ = []"

fun sample_batch :: "'v event \<Rightarrow> ('v \<times> 'v) list" where
  "sample_batch (Sample d rho bs cubic (Inr xy)) = [xy]"
| "sample_batch _ = []"

fun estimate_batch :: "'v event \<Rightarrow> ('v \<times> 'v) list" where
  "estimate_batch (Estimate name x y c b alpha dev kw r) = [(x, y)]"
| "estimate_batch _ = []"

fun estimate_name :: "'v event \<Rightarrow> 'v pyval list" where
  "estimate_name (Estimate name x y c b alpha dev kw r) = [name]"
| "estimate_name _ = []"

fun estimate_critic :: "'v event \<Rightarrow> addr list" where
  "estimate_critic (Estimate name x y c b alpha dev kw r) = [c]"
| "estimate_critic _ = []"

fun estimate_baseline :: "'v event \<Rightarrow> baseline_obj list" where
  "estimate_baseline (Estimate name x y c b alpha dev kw r) = [b]"
| "estimate_baseline _ = []"

fun estimate_device :: "'v event \<Rightarrow> string list" where
  "estimate_device (Estimate name x y c b alpha dev kw r) = [dev]"
| "estimate_device _ = []"

fun estimate_result :: "'v event \<Rightarrow> 'v list" where
  "estimate_result (Estimate name x y c b alpha dev kw (Inr mi)) = [mi]"
| "estimate_result _ = []"

fun backward_loss :: "'v event \<Rightarrow> 'v list" where
  "backward_loss (Backward loss) = [loss]"
| "backward_loss _ = []"

fun step_target :: "'v event \<Rightarrow> addr list" where
  "step_target (Step a) = [a]"
| "step_target _ = []"

text \<open>The calls a training iteration makes; the others belong to the set-up.\<close>

fun training_call :: "'v event \<Rightarrow> 'v event list" where
  "training_call (NewCritic key rho kw) = []"
| "training_call (NewBaseline key) = []"
| "training_call (NewAdam a lr) = []"
| "training_call e = [e]"

text \<open>An action only appends to the log, and every call it appends satisfies \<open>Q\<close>.\<close>

definition appends :: "('v event \<Rightarrow> bool) \<Rightarrow> ('v, 'r, 'a) action \<Rightarrow> bool" where
  "appends Q m = (\<forall>s. \<exists>new. events (snd (m s)) = events s @ new \<and> list_all Q new)"

text \<open>The networks of a baseline: itself when it is a network, none otherwise.\<close>

fun baseline_params :: "baseline_obj \<Rightarrow> addr list" where
  "baseline_params (Module b) = [b]"
| "baseline_params _ = []"

text \<open>What the set-up guarantees of the closure: each optimizer holds the parameters of
  its own network, and there is an optimizer for the baseline exactly when the baseline
  is a network.\<close>

fun wired :: "closure \<Rightarrow> bool" where
  "wired c =
     (target (opt_crit c) = critic c \<and>
      (case baseline c of
         Module b \<Rightarrow> opt_base c = Some (Adam b) \<and> b \<noteq> critic c
       | _ \<Rightarrow> opt_base c = None))"

text \<open>What a call made by the training loop looks like, for the closure \<open>c\<close>: it builds
  nothing; an estimate is asked for the critic and the baseline of the closure, under
  the name the configuration gives, on the device \<^verbatim>\<open>"cuda:4"\<close>; an optimizer step is on
  the critic or on the network of the baseline.\<close>

definition training_log :: "closure \<Rightarrow> 'v dict \<Rightarrow> 'v event \<Rightarrow> bool" where
  "training_log c mi_params e =
     (critic_rho e = [] \<and> critic_key e = [] \<and> baseline_key e = [] \<and> adam_target e = [] \<and>
      set (estimate_critic e) \<subseteq> {critic c} \<and>
      set (estimate_baseline e) \<subseteq> {baseline c} \<and>
      set (estimate_device e) \<subseteq> {''cuda:4''} \<and>
      set (estimate_name e) \<subseteq> {name. mi_params ''estimator'' = Some name} \<and>
      set (step_target e) \<subseteq> insert (critic c) (set (baseline_params (baseline c))))"

section \<open>A concrete instance\<close>

text \<open>
  Small stand-ins for the external capabilities, over the integers, to run the model on
  concrete configurations. Modelled from the spec: \<^verbatim>\<open>estimate_mutual_information\<close> is
  in \<^verbatim>\<open>estimators\<close>, which is not among the sources; by the spec it selects "among named
  estimator formulas by string key: infonce, nwj, js, smile, conditional", so the
  stand-in raises on any other name. The schedule has one correlation per iteration, and
  the sampler rejects a correlation out of its range (here, from 20 on). The machine has
  no accelerator: \<^verbatim>\<open>device\<close> is \<^verbatim>\<open>"cpu"\<close>.
\<close>

definition env0 :: "(int, nat) externals" where
  "env0 = \<lparr>
     dim = 20,
     device = ''cpu'',
     SeparableCritic = (\<lambda>rho kw g. (Inr 100, Suc g)),
     ConcatCritic = (\<lambda>rho kw g. (Inr 200, Suc g)),
     mlp = (\<lambda>kw g. (Inr 300, Suc g)),
     to_device = (\<lambda>m d. Inr m),
     Adam_init = (\<lambda>lr. Inr 0),
     Adam_step = (\<lambda>m p g. Inr (m + 1, p - g)),
     mi_schedule = (\<lambda>n. case n of PInt k \<Rightarrow> if k < 0 then Inl (Failure ''ValueError'') else Inr k
                        | _ \<Rightarrow> Inl TypeError),
     mi_to_rho = (\<lambda>d mis. Inr (map (\<lambda>i. 10 * int i + 5) [0..<nat mis])),
     sample_correlated_gaussian = (\<lambda>d rho bs cubic g.
        if rho < 20 then (Inr (rho + int g, rho - int g), Suc g)
        else (Inl (Failure ''correlation out of range''), g)),
     estimate_mutual_information = (\<lambda>name x y c b alpha dev kw ps.
        if name \<in> set [PStr ''infonce'', PStr ''nwj'', PStr ''js'', PStr ''smile'',
                        PStr ''conditional'']
        then Inr (x + y) else Inl (Failure ''unknown estimator'')),
     negate = (\<lambda>v. Inr (- v)),
     autograd = (\<lambda>loss ps. Inr (\<lambda>a. if ps a = None then None else Some loss)),
     accumulate = (\<lambda>a b. a + b),
     detach_cpu_numpy = (\<lambda>v. Inr v)\<rparr>"

definition s0 :: "(int, nat) world" where
  "s0 = \<lparr>params = Map.empty, grads = Map.empty, moments = Map.empty, fresh = 0, rng = 0,
         events = []\<rparr>"

text \<open>The notebook's parameters, with the width of the networks and the number of
  iterations made small.\<close>

definition critic_params0 :: "int dict" where
  "critic_params0 = [''dim'' \<mapsto> PInt 20, ''layers'' \<mapsto> PInt 2, ''embed_dim'' \<mapsto> PInt 32,
                     ''hidden_dim'' \<mapsto> PInt 256, ''activation'' \<mapsto> PStr ''relu'']"

definition data_params0 :: "int dict" where
  "data_params0 = [''dim'' \<mapsto> PInt 20, ''batch_size'' \<mapsto> PInt 64, ''cubic'' \<mapsto> PNone]"

definition opt_params0 :: "int \<Rightarrow> int dict" where
  "opt_params0 n = [''iterations'' \<mapsto> PInt n, ''learning_rate'' \<mapsto> PVal 5]"

definition mi_params0 :: "string \<Rightarrow> string \<Rightarrow> string \<Rightarrow> int dict" where
  "mi_params0 e c b = [''estimator'' \<mapsto> PStr e, ''critic'' \<mapsto> PStr c, ''baseline'' \<mapsto> PStr b]"

text \<open>A configuration that leaves the critic out.\<close>

definition mi_params_no_critic :: "int dict" where
  "mi_params_no_critic = [''estimator'' \<mapsto> PStr ''smile'', ''baseline'' \<mapsto> PStr ''unnormalized'']"

section \<open>Running the model\<close>

lemma and_then_apply:
  "and_then m f s = (case m s of (Inl e, s') \<Rightarrow> (Inl e, s') | (Inr x, s') \<Rightarrow> f x s')"
  by (simp add: and_then_def)

lemma succeed_apply: "succeed x s = (Inr x, s)"
  by (simp add: succeed_def)

lemma raise_apply: "raise e s = (Inl e, s)"
  by (simp add: raise_def)

lemma lift_apply: "lift r s = (r, s)"
  by (simp add: lift_def)

lemma call_apply: "call e s = (Inr (), s\<lparr>events := events s @ [e]\<rparr>)"
  by (simp add: call_def)

lemma draw_apply: "draw f s = (case f (rng s) of (r, g) \<Rightarrow> (r, s\<lparr>rng := g\<rparr>))"
  by (simp add: draw_def)

lemma new_module_apply:
  "new_module m s = (Inr (fresh s), s\<lparr>params := (params s)(fresh s \<mapsto> m), fresh := Suc (fresh s)\<rparr>)"
  by (simp add: new_module_def)

lemma sample_apply:
  "sample env d rho bs cubic s =
     (case sample_correlated_gaussian env d rho bs cubic (rng s) of
        (r, g) \<Rightarrow> (r, s\<lparr>rng := g, events := events s @ [Sample d rho bs cubic r]\<rparr>))"
  by (simp add: sample_def)

lemma estimate_apply:
  "estimate env name x y c b alpha dev kwargs s =
     (if kwargs ''device'' \<noteq> None then (Inl TypeError, s)
      else (estimate_mutual_information env name x y c b alpha dev kwargs (params s),
            s\<lparr>events := events s @ [Estimate name x y c b alpha dev kwargs
               (estimate_mutual_information env name x y c b alpha dev kwargs (params s))]\<rparr>))"
  by (simp add: estimate_def raise_def Let_def)

lemma new_Adam_apply:
  "new_Adam env a opt_params s =
     (case getitem opt_params ''learning_rate'' of
        Inl e \<Rightarrow> (Inl e, s)
      | Inr lr \<Rightarrow>
          (case Adam_init env lr of
             Inl e \<Rightarrow> (Inl e, s\<lparr>events := events s @ [NewAdam a lr]\<rparr>)
           | Inr st \<Rightarrow> (Inr (Adam a), s\<lparr>events := events s @ [NewAdam a lr],
                                          moments := (moments s)(a \<mapsto> st)\<rparr>)))"
  by (simp add: new_Adam_def and_then_def lift_def call_def split: sum.splits)

lemma zero_grad_apply:
  "zero_grad opt s =
     (Inr (), s\<lparr>events := events s @ [ZeroGrad (target opt)], grads := (grads s)(target opt := None)\<rparr>)"
  by (simp add: zero_grad_def and_then_def call_def)

lemma step_apply:
  "step env opt s =
     (case (params s (target opt), grads s (target opt), moments s (target opt)) of
        (Some p, Some g, Some m) \<Rightarrow>
          (case Adam_step env m p g of
             Inl e \<Rightarrow> (Inl e, s\<lparr>events := events s @ [Step (target opt)]\<rparr>)
           | Inr (m', p') \<Rightarrow>
               (Inr (), s\<lparr>events := events s @ [Step (target opt)],
                          params := (params s)(target opt \<mapsto> p'),
                          moments := (moments s)(target opt \<mapsto> m')\<rparr>))
      | _ \<Rightarrow> (Inr (), s\<lparr>events := events s @ [Step (target opt)]\<rparr>))"
  by (simp add: step_def and_then_def call_def split: sum.splits option.splits prod.splits)

lemma backward_apply:
  "backward env loss s =
     (case autograd env loss (params s) of
        Inl e \<Rightarrow> (Inl e, s\<lparr>events := events s @ [Backward loss]\<rparr>)
      | Inr g \<Rightarrow> (Inr (), s\<lparr>events := events s @ [Backward loss],
                             grads := accumulated (accumulate env) g (grads s)\<rparr>))"
  by (simp add: backward_def and_then_def call_def split: sum.splits)

lemma accumulated_apply:
  "accumulated add g old a =
     (case g a of None \<Rightarrow> old a | Some d \<Rightarrow> Some (case old a of None \<Rightarrow> d | Some d0 \<Rightarrow> add d0 d))"
  by (simp add: accumulated_def)

lemma new_critic_apply:
  "new_critic env key rho kw s =
     (case CRITICS env key of
        None \<Rightarrow> (Inl (KeyError key), s)
      | Some ctor \<Rightarrow>
          if kw ''rho'' \<noteq> None then (Inl TypeError, s)
          else (case ctor rho kw (rng s) of
                  (Inl e, g) \<Rightarrow> (Inl e, s\<lparr>events := events s @ [NewCritic key rho kw], rng := g\<rparr>)
                | (Inr m, g) \<Rightarrow>
                    (case to_device env m (device env) of
                       Inl e \<Rightarrow> (Inl e, s\<lparr>events := events s @ [NewCritic key rho kw], rng := g\<rparr>)
                     | Inr m' \<Rightarrow>
                         (Inr (fresh s),
                          s\<lparr>events := events s @ [NewCritic key rho kw], rng := g,
                            params := (params s)(fresh s \<mapsto> m'), fresh := Suc (fresh s)\<rparr>))))"
  by (simp add: new_critic_def and_then_def raise_def call_def draw_def lift_def new_module_def
      split: option.splits sum.splits prod.splits)

lemmas applied = and_then_apply succeed_apply raise_apply lift_apply call_apply draw_apply
  new_module_apply sample_apply estimate_apply new_Adam_apply zero_grad_apply step_apply
  backward_apply accumulated_apply new_critic_apply

text \<open>The array that \<^verbatim>\<open>train_estimator\<close> returns has the items of the list, so the loop's
  outcome is the outcome of the training.\<close>

lemma and_then_np_array:
  "and_then m (\<lambda>estimates. succeed (np_array estimates)) = m"
  by (intro ext) (simp add: and_then_def succeed_def np_array_def split: prod.splits sum.splits)

lemma training_unfold:
  "training env c kwargs rhos data_params mi_params opt_params =
     and_then (lift (getitem opt_params ''iterations'')) (\<lambda>n.
     and_then (lift (py_range n)) (\<lambda>indices.
     for_loop (iteration env c kwargs rhos data_params mi_params) indices []))"
  by (simp add: training_def and_then_np_array)

lemmas config0 = env0_def s0_def critic_params0_def data_params0_def opt_params0_def mi_params0_def

section \<open>What an action appends to the log\<close>

lemma appendsI:
  assumes "\<And>s. \<exists>new. events (snd (m s)) = events s @ new \<and> list_all Q new"
  shows "appends Q m"
  using assms by (simp add: appends_def)

lemma appendsD:
  assumes "appends Q m" and "m s = (r, s')"
  shows "\<exists>new. events s' = events s @ new \<and> list_all Q new"
  using assms by (auto simp: appends_def dest: spec [of _ s])

lemma appends_silent:
  assumes "\<And>s. events (snd (m s)) = events s"
  shows "appends Q m"
  using assms by (simp add: appends_def)

lemma appends_succeed: "appends Q (succeed x)"
  by (rule appends_silent) (simp add: succeed_def)

lemma appends_raise: "appends Q (raise e)"
  by (rule appends_silent) (simp add: raise_def)

lemma appends_lift: "appends Q (lift r)"
  by (rule appends_silent) (simp add: lift_def)

lemma appends_draw: "appends Q (draw f)"
  by (rule appends_silent) (simp add: draw_def split: prod.splits)

lemma appends_new_module: "appends Q (new_module m)"
  by (rule appends_silent) (simp add: new_module_def)

lemma appends_call: "Q e \<Longrightarrow> appends Q (call e)"
  by (simp add: appends_def call_def)

lemma appends_and_then:
  assumes m: "appends Q m"
    and f: "\<And>x s s'. m s = (Inr x, s') \<Longrightarrow> appends Q (f x)"
  shows "appends Q (and_then m f)"
proof (rule appendsI)
  fix s
  obtain r s1 where ms: "m s = (r, s1)" by (cases "m s")
  from appendsD [OF m ms] obtain n1 where n1: "events s1 = events s @ n1" "list_all Q n1"
    by blast
  show "\<exists>new. events (snd (and_then m f s)) = events s @ new \<and> list_all Q new"
  proof (cases r)
    case (Inl e)
    with ms n1 show ?thesis by (auto simp: and_then_apply)
  next
    case (Inr x)
    obtain r2 s2 where fs: "f x s1 = (r2, s2)" by (cases "f x s1")
    from appendsD [OF f fs] ms Inr obtain n2 where "events s2 = events s1 @ n2" "list_all Q n2"
      by blast
    with ms Inr fs n1 have "events (snd (and_then m f s)) = events s @ (n1 @ n2) \<and> list_all Q (n1 @ n2)"
      by (simp add: and_then_apply)
    then show ?thesis by blast
  qed
qed

lemma appends_if:
  "(c \<Longrightarrow> appends Q a) \<Longrightarrow> (\<not> c \<Longrightarrow> appends Q b) \<Longrightarrow> appends Q (if c then a else b)"
  by simp

lemma appends_case_prod:
  "(\<And>x y. appends Q (f x y)) \<Longrightarrow> appends Q (case p of (x, y) \<Rightarrow> f x y)"
  by (cases p) simp

lemma appends_zero_grad: "Q (ZeroGrad (target opt)) \<Longrightarrow> appends Q (zero_grad opt)"
  by (simp add: appends_def zero_grad_apply)

lemma appends_step: "Q (Step (target opt)) \<Longrightarrow> appends Q (step env opt)"
  by (simp add: appends_def step_apply split: option.splits sum.splits prod.splits)

lemma appends_backward: "Q (Backward loss) \<Longrightarrow> appends Q (backward env loss)"
  by (simp add: appends_def backward_apply split: sum.splits)

lemma appends_sample:
  "(\<And>r. Q (Sample d rho bs cubic r)) \<Longrightarrow> appends Q (sample env d rho bs cubic)"
  by (simp add: appends_def sample_apply split: prod.splits)

lemma appends_estimate:
  "(\<And>r. Q (Estimate name x y c b alpha dev kwargs r)) \<Longrightarrow>
   appends Q (estimate env name x y c b alpha dev kwargs)"
  by (simp add: appends_def estimate_apply)

lemma appends_new_Adam: "(\<And>lr. Q (NewAdam a lr)) \<Longrightarrow> appends Q (new_Adam env a opt_params)"
  by (simp add: appends_def new_Adam_apply split: sum.splits)

lemma appends_new_critic:
  "(CRITICS env key \<noteq> None \<Longrightarrow> Q (NewCritic key rho kw)) \<Longrightarrow> appends Q (new_critic env key rho kw)"
  by (auto simp: appends_def new_critic_apply split: option.splits sum.splits prod.splits)

lemma appends_method_of:
  "(\<And>opt. ob = Some opt \<Longrightarrow> appends Q (f opt)) \<Longrightarrow> appends Q (method_of ob f)"
  by (cases ob) (simp_all add: appends_raise)

lemma BASELINES_silent: "BASELINES env key = Some lam \<Longrightarrow> appends Q lam"
  by (auto simp: BASELINES_def split: if_splits
      intro!: appends_and_then appends_succeed appends_draw appends_lift appends_new_module)

lemma appends_new_baseline:
  assumes "BASELINES env key \<noteq> None \<Longrightarrow> Q (NewBaseline key)"
  shows "appends Q (new_baseline env key)"
proof (cases "BASELINES env key")
  case None
  then show ?thesis by (simp add: new_baseline_def appends_raise)
next
  case (Some lam)
  with assms have "appends Q (and_then (call (NewBaseline key)) (\<lambda>_. lam))"
    by (intro appends_and_then appends_call BASELINES_silent [OF Some]) simp
  with Some show ?thesis by (simp add: new_baseline_def)
qed

text \<open>The critic that a step hands to the estimator is the one of the closure: the branch
  that would build another raises.\<close>

lemma conditional_not_in_CRITICS: "CRITICS env (PStr ''conditional'') = None"
  by (simp add: CRITICS_def)

lemma choose_critic_Inr:
  assumes "(if name = PStr ''conditional''
            then new_critic env (PStr ''conditional'') rho kw else succeed (critic c)) s = (Inr x, s')"
  shows "x = critic c \<and> s' = s"
  using assms
  by (auto simp: new_critic_apply conditional_not_in_CRITICS succeed_apply split: if_splits)

lemma appends_train_step:
  assumes "Q (ZeroGrad (target (opt_crit c)))" "Q (Step (target (opt_crit c)))"
    and "\<And>opt. opt_base c = Some opt \<Longrightarrow> isinstance_Module (baseline c) \<Longrightarrow>
           Q (ZeroGrad (target opt)) \<and> Q (Step (target opt))"
    and "\<And>d bs cubic r. Q (Sample d rho bs cubic r)"
    and "\<And>name x y r. mi_params ''estimator'' = Some name \<Longrightarrow>
           Q (Estimate name x y (critic c) (baseline c) (get mi_params ''alpha_logit'' PNone)
                ''cuda:4'' kwargs r)"
    and "\<And>loss. Q (Backward loss)"
  shows "appends Q (train_step env c kwargs rho data_params mi_params)"
  unfolding train_step_def
  using assms
  by (intro appends_and_then appends_zero_grad appends_if appends_method_of appends_succeed
      appends_lift appends_new_critic appends_case_prod appends_sample appends_backward
      appends_step appends_estimate)
     (auto simp: conditional_not_in_CRITICS lift_apply getitem_def dest!: choose_critic_Inr
        split: option.splits)

lemma and_then_cases:
  assumes "and_then m f s = (r, s')"
  obtains (failed) e where "m s = (Inl e, s')" "r = Inl e"
        | (continued) x s1 where "m s = (Inr x, s1)" "f x s1 = (r, s')"
  using assms by (auto simp: and_then_apply split: prod.splits sum.splits)

lemma and_then_InrE:
  assumes "and_then m f s = (Inr y, s')"
  obtains x s1 where "m s = (Inr x, s1)" "f x s1 = (Inr y, s')"
  using assms by (auto simp: and_then_apply split: prod.splits sum.splits)

lemma for_loop_Nil: "for_loop body [] estimates = succeed estimates"
  by (rule ext) (simp add: succeed_apply)

lemma for_loop_Cons:
  "for_loop body (i # rest) estimates =
     and_then (body i) (\<lambda>mi. for_loop body rest (estimates @ [mi]))"
  by (rule ext) (simp add: and_then_apply)

lemma appends_for_loop:
  assumes "\<And>i. appends Q (body i)"
  shows "appends Q (for_loop body indices estimates)"
proof (induction indices arbitrary: estimates)
  case Nil
  show ?case by (simp add: for_loop_Nil appends_succeed)
next
  case (Cons i rest)
  show ?case
    unfolding for_loop_Cons by (intro appends_and_then assms Cons.IH)
qed

lemma appends_iteration:
  assumes "\<And>rho. appends Q (train_step env c kwargs rho data_params mi_params)"
  shows "appends Q (iteration env c kwargs rhos data_params mi_params i)"
  unfolding iteration_def by (intro appends_and_then appends_lift assms)

lemma appends_training:
  assumes "\<And>rho. appends Q (train_step env c kwargs rho data_params mi_params)"
  shows "appends Q (training env c kwargs rhos data_params mi_params opt_params)"
  unfolding training_unfold
  by (intro appends_and_then appends_lift appends_for_loop appends_iteration assms)

lemma appends_prepare:
  assumes "\<And>key. CRITICS env key \<noteq> None \<Longrightarrow> key = get mi_params ''critic'' (PStr ''separable'') \<Longrightarrow>
             Q (NewCritic key PNone critic_params)"
    and "\<And>key. BASELINES env key \<noteq> None \<Longrightarrow> key = get mi_params ''baseline'' (PStr ''constant'') \<Longrightarrow>
             Q (NewBaseline key)"
    and "\<And>a lr. Q (NewAdam a lr)"
  shows "appends Q (prepare env critic_params data_params mi_params opt_params)"
  unfolding prepare_def
  by (intro appends_and_then appends_new_critic appends_new_baseline appends_new_Adam
      appends_lift appends_succeed)
     (auto simp: assms split: baseline_obj.splits
        intro!: appends_and_then appends_new_Adam appends_succeed)

lemma train_estimator_cases:
  assumes "train_estimator env critic_params data_params mi_params opt_params kwargs s = (r, s')"
  obtains (failed) e where
      "prepare env critic_params data_params mi_params opt_params s = (Inl e, s')" "r = Inl e"
    | (trained) c rhos s1 where
      "prepare env critic_params data_params mi_params opt_params s = (Inr (c, rhos), s1)"
      "training env c kwargs rhos data_params mi_params opt_params s1 = (r, s')"
  using assms unfolding train_estimator_def
  by (erule and_then_cases) auto

text \<open>What a successful set-up returns.\<close>

lemma new_critic_Inr:
  assumes "new_critic env key rho kw s = (Inr a, s')"
  shows "a = fresh s \<and> fresh s' = Suc (fresh s) \<and> CRITICS env key \<noteq> None"
  using assms
  by (auto simp: new_critic_apply split: option.splits if_splits prod.splits sum.splits)

lemma BASELINES_Inr:
  assumes "BASELINES env key = Some lam" "lam s = (Inr b, s')"
  shows "(case b of Module a \<Rightarrow> a = fresh s \<and> key = PStr ''unnormalized''
          | NoBaseline \<Rightarrow> key = PStr ''constant'' | LogProbGaussian \<Rightarrow> key = PStr ''gaussian'')"
  using assms
  by (auto simp: BASELINES_def applied split: if_splits prod.splits sum.splits baseline_obj.splits)

lemma new_baseline_Inr:
  assumes "new_baseline env key s = (Inr b, s')"
  shows "(case b of Module a \<Rightarrow> a = fresh s \<and> key = PStr ''unnormalized''
          | NoBaseline \<Rightarrow> key = PStr ''constant'' | LogProbGaussian \<Rightarrow> key = PStr ''gaussian'')"
proof (cases "BASELINES env key")
  case None
  with assms show ?thesis by (simp add: new_baseline_def raise_apply)
next
  case (Some lam)
  with assms have "lam (s\<lparr>events := events s @ [NewBaseline key]\<rparr>) = (Inr b, s')"
    by (simp add: new_baseline_def applied)
  from BASELINES_Inr [OF Some this] show ?thesis by (cases b) simp_all
qed

lemma new_Adam_Inr: "new_Adam env a opt_params s = (Inr opt, s') \<Longrightarrow> opt = Adam a \<and> fresh s' = fresh s"
  by (auto simp: new_Adam_apply split: sum.splits)

lemma prepare_Inr:
  assumes "prepare env critic_params data_params mi_params opt_params s = (Inr (c, rhos), s')"
  shows "wired c \<and> critic c = fresh s \<and>
         (\<exists>n mis d. opt_params ''iterations'' = Some n \<and> mi_schedule env n = Inr mis \<and>
                    data_params ''dim'' = Some d \<and> mi_to_rho env d mis = Inr rhos)"
  using assms unfolding prepare_def
  apply (elim and_then_InrE)
  apply (frule new_critic_Inr)
  apply (frule new_baseline_Inr)
  apply (frule new_Adam_Inr)
  apply (auto simp: applied getitem_def split: baseline_obj.splits option.splits sum.splits
         dest!: new_Adam_Inr)
  done

section \<open>The log and the frame of each call\<close>

lemma lift_Inr: "lift r s = (Inr x, s') \<Longrightarrow> r = Inr x \<and> s' = s"
  by (simp add: lift_apply)

lemma zero_grad_any:
  "zero_grad opt s = (r, s') \<Longrightarrow>
   r = Inr () \<and> events s' = events s @ [ZeroGrad (target opt)] \<and> params s' = params s"
  by (auto simp: zero_grad_apply)

lemma step_any:
  "step env opt s = (r, s') \<Longrightarrow>
   events s' = events s @ [Step (target opt)] \<and> (\<forall>a. a \<noteq> target opt \<longrightarrow> params s' a = params s a)"
  by (auto simp: step_apply split: option.splits sum.splits prod.splits)

lemma backward_any:
  "backward env loss s = (r, s') \<Longrightarrow> events s' = events s @ [Backward loss] \<and> params s' = params s"
  by (auto simp: backward_apply split: sum.splits)

lemma sample_any:
  "sample env d rho bs cubic s = (r, s') \<Longrightarrow>
   events s' = events s @ [Sample d rho bs cubic r] \<and> params s' = params s"
  by (auto simp: sample_apply split: prod.splits)

lemma estimate_any:
  "estimate env name x y c b alpha dev kwargs s = (r, s') \<Longrightarrow>
   params s' = params s \<and>
   (events s' = events s \<and> r = Inl TypeError \<or>
    events s' = events s @ [Estimate name x y c b alpha dev kwargs r])"
  by (auto simp: estimate_apply split: if_splits)

lemma estimate_Inr:
  "estimate env name x y c b alpha dev kwargs s = (Inr mi, s') \<Longrightarrow>
   params s' = params s \<and> events s' = events s @ [Estimate name x y c b alpha dev kwargs (Inr mi)]"
  by (auto simp: estimate_apply split: if_splits)

lemma choose_critic_any:
  assumes "(if name = PStr ''conditional''
            then new_critic env (PStr ''conditional'') rho kw else succeed (critic c)) s = (r, s')"
  shows "s' = s \<and> (r = Inr (critic c) \<or> r = Inl (KeyError (PStr ''conditional'')))"
  using assms
  by (auto simp: new_critic_apply conditional_not_in_CRITICS succeed_apply split: if_splits)

lemma baseline_zero_grad_any:
  assumes "wired c"
    and "(if isinstance_Module (baseline c) then method_of (opt_base c) zero_grad
          else succeed ()) s = (r, s')"
  shows "r = Inr () \<and> events s' = events s @ map ZeroGrad (baseline_params (baseline c)) \<and>
         params s' = params s"
  using assms by (cases "baseline c") (auto simp: succeed_apply zero_grad_apply)

lemma baseline_step_any:
  assumes "wired c"
    and "(if isinstance_Module (baseline c) then method_of (opt_base c) (step env)
          else succeed ()) s = (r, s')"
  shows "events s' = events s @ map Step (baseline_params (baseline c)) \<and>
         (\<forall>a. a \<notin> set (baseline_params (baseline c)) \<longrightarrow> params s' a = params s a)"
  using assms by (cases "baseline c") (auto simp: succeed_apply dest!: step_any)

text \<open>A step that returns has made exactly these calls.\<close>

lemma train_step_Inr:
  assumes "wired c"
    and "train_step env c kwargs rho data_params mi_params s = (Inr mi, s')"
  shows "\<exists>d bs cubic x y name loss.
           events s' = events s @
             ZeroGrad (critic c) # map ZeroGrad (baseline_params (baseline c)) @
             [Sample d rho bs cubic (Inr (x, y)),
              Estimate name x y (critic c) (baseline c) (get mi_params ''alpha_logit'' PNone)
                ''cuda:4'' kwargs (Inr mi),
              Backward loss] @
             Step (critic c) # map Step (baseline_params (baseline c)) \<and>
           mi_params ''estimator'' = Some name \<and> negate env mi = Inr loss"
  using assms(2) unfolding train_step_def
  apply (elim and_then_InrE)
  apply (simp only: case_prod_beta)
  apply (elim and_then_InrE)
  apply (drule zero_grad_any)
  apply (drule baseline_zero_grad_any [OF assms(1)])
  apply (drule choose_critic_any)
  apply (drule sample_any)
  apply (drule estimate_Inr)
  apply (drule backward_any)
  apply (drule step_any)
  apply (drule baseline_step_any [OF assms(1)])
  apply (drule lift_Inr)+
  using assms(1)
  apply (auto simp: succeed_apply getitem_def split: option.splits)
  done

lemma collect_Nil: "collect f [] = []"
  by (simp add: collect_def)

lemma collect_Cons: "collect f (e # es) = f e @ collect f es"
  by (simp add: collect_def)

lemma collect_append: "collect f (xs @ ys) = collect f xs @ collect f ys"
  by (simp add: collect_def)

lemma collect_silent: "list_all (\<lambda>e. f e = []) es \<Longrightarrow> collect f es = []"
  by (induction es) (simp_all add: collect_def)

lemmas collect_simps = collect_Nil collect_Cons collect_append

lemma lift_any: "lift r s = (r', s') \<Longrightarrow> r' = r \<and> s' = s"
  by (simp add: lift_apply)

text \<open>Whatever its outcome, a step draws at most one sample, with the correlation it was
  given, and changes no network but the critic and the baseline of the closure.\<close>

lemma train_step_any:
  assumes "wired c"
    and "train_step env c kwargs rho data_params mi_params s = (r, s')"
  shows "\<exists>new. events s' = events s @ new \<and>
           (collect sample_rho new = [] \<or> collect sample_rho new = [rho]) \<and>
           (\<forall>a. a \<noteq> critic c \<longrightarrow> a \<notin> set (baseline_params (baseline c)) \<longrightarrow>
                params s' a = params s a)"
  using assms(2) unfolding train_step_def split_def
  apply (elim and_then_cases)
  using assms(1)
  apply (cases "baseline c";
         auto simp: succeed_apply collect_simps
           dest!: zero_grad_any baseline_zero_grad_any [OF assms(1)] choose_critic_any sample_any
             estimate_any backward_any step_any baseline_step_any [OF assms(1)] lift_any)+
  done

section \<open>The loop\<close>

lemma iteration_Inr:
  assumes "iteration env c kwargs rhos data_params mi_params i s = (Inr v, s')"
  shows "i < length rhos \<and>
         (\<exists>mi. train_step env c kwargs (rhos ! i) data_params mi_params s = (Inr mi, s') \<and>
               detach_cpu_numpy env mi = Inr v)"
  using assms unfolding iteration_def
  by (elim and_then_InrE) (auto simp: lift_apply index_def split: if_splits)

lemma iteration_any:
  assumes "wired c"
    and "iteration env c kwargs rhos data_params mi_params i s = (r, s')"
  shows "\<exists>new. events s' = events s @ new \<and>
           (collect sample_rho new = [] \<or> i < length rhos \<and> collect sample_rho new = [rhos ! i]) \<and>
           (\<forall>a. a \<noteq> critic c \<longrightarrow> a \<notin> set (baseline_params (baseline c)) \<longrightarrow>
                params s' a = params s a)"
  using assms(2) unfolding iteration_def
  by (elim and_then_cases)
     (auto simp: collect_simps index_def split: if_splits dest!: lift_any
        dest: train_step_any [OF assms(1)])

lemma for_loop_cases:
  assumes "for_loop body (i # rest) estimates s = (r, s')"
  obtains (failed) e where "body i s = (Inl e, s')" "r = Inl e"
        | (continued) mi s1 where "body i s = (Inr mi, s1)"
            "for_loop body rest (estimates @ [mi]) s1 = (r, s')"
  using assms unfolding for_loop_Cons by (rule and_then_cases)

lemma for_loop_length:
  "for_loop body indices estimates s = (Inr out, s') \<Longrightarrow>
   length out = length estimates + length indices"
proof (induction indices arbitrary: estimates s)
  case Nil
  then show ?case by simp
next
  case (Cons i rest)
  from Cons.prems show ?case
    by (cases rule: for_loop_cases) (auto dest: Cons.IH)
qed

lemma for_loop_append:
  "for_loop body (xs @ ys) estimates =
     and_then (for_loop body xs estimates) (\<lambda>estimates'. for_loop body ys estimates')"
proof (induction xs arbitrary: estimates)
  case Nil
  show ?case by (rule ext) (simp add: and_then_apply)
next
  case (Cons i rest)
  show ?case
    by (rule ext) (simp add: Cons.IH and_then_apply split: prod.splits sum.splits)
qed

lemma for_loop_abort:
  assumes "for_loop body before estimates s = (Inr est1, s1)"
    and "body i s1 = (Inl e, s2)"
  shows "for_loop body (before @ i # rest) estimates s = (Inl e, s2)"
  using assms by (simp add: for_loop_append and_then_apply)

text \<open>A loop that returns: what was sampled, estimated, differentiated and recorded, one
  after the other.\<close>

lemma loop_Inr:
  assumes w: "wired c"
  shows "for_loop (iteration env c kwargs rhos data_params mi_params) indices estimates s
           = (Inr out, s') \<Longrightarrow>
         \<exists>new vals. events s' = events s @ new \<and> out = estimates @ vals \<and>
           list_all (\<lambda>i. i < length rhos) indices \<and>
           collect sample_rho new = map ((!) rhos) indices \<and>
           length (collect sample_batch new) = length indices \<and>
           collect sample_batch new = collect estimate_batch new \<and>
           map (negate env) (collect estimate_result new) = map Inr (collect backward_loss new) \<and>
           map (detach_cpu_numpy env) (collect estimate_result new) = map Inr vals"
proof (induction indices arbitrary: estimates s)
  case Nil
  then show ?case by (simp add: collect_simps)
next
  case (Cons i rest)
  from Cons.prems obtain v s1 where
    it: "iteration env c kwargs rhos data_params mi_params i s = (Inr v, s1)" and
    rest: "for_loop (iteration env c kwargs rhos data_params mi_params) rest (estimates @ [v]) s1
             = (Inr out, s')"
    by (cases rule: for_loop_cases) auto
  from iteration_Inr [OF it] obtain mi where i: "i < length rhos"
    and st: "train_step env c kwargs (rhos ! i) data_params mi_params s = (Inr mi, s1)"
    and d: "detach_cpu_numpy env mi = Inr v"
    by blast
  from train_step_Inr [OF w st] obtain new1 where
    n1: "events s1 = events s @ new1" "collect sample_rho new1 = [rhos ! i]"
      "length (collect sample_batch new1) = 1"
      "collect sample_batch new1 = collect estimate_batch new1"
      "collect estimate_result new1 = [mi]"
      "map (negate env) [mi] = map Inr (collect backward_loss new1)"
    by (cases "baseline c") (auto simp: collect_simps)
  from Cons.IH [OF rest] obtain new2 vals where
    n2: "events s' = events s1 @ new2" "out = (estimates @ [v]) @ vals"
      "list_all (\<lambda>i. i < length rhos) rest"
      "collect sample_rho new2 = map ((!) rhos) rest"
      "length (collect sample_batch new2) = length rest"
      "collect sample_batch new2 = collect estimate_batch new2"
      "map (negate env) (collect estimate_result new2) = map Inr (collect backward_loss new2)"
      "map (detach_cpu_numpy env) (collect estimate_result new2) = map Inr vals"
    by blast
  show ?case
    apply (rule exI [of _ "new1 @ new2"])
    apply (rule exI [of _ "v # vals"])
    using n1 n2 i d
    apply (simp add: collect_simps)
    done
qed

text \<open>A loop, whatever its outcome: the correlations sampled are those of the schedule at
  the first indices, in order.\<close>

lemma loop_any:
  assumes w: "wired c"
  shows "for_loop (iteration env c kwargs rhos data_params mi_params) indices estimates s = (r, s') \<Longrightarrow>
         \<exists>new k. events s' = events s @ new \<and> k \<le> length indices \<and>
           list_all (\<lambda>i. i < length rhos) (take k indices) \<and>
           collect sample_rho new = map ((!) rhos) (take k indices) \<and>
           (\<forall>a. a \<noteq> critic c \<longrightarrow> a \<notin> set (baseline_params (baseline c)) \<longrightarrow>
                params s' a = params s a)"
proof (induction indices arbitrary: estimates s)
  case Nil
  then show ?case by (simp add: collect_simps)
next
  case (Cons i rest)
  from Cons.prems show ?case
  proof (cases rule: for_loop_cases)
    case (failed e)
    from iteration_any [OF w failed(1)] obtain new where
      n: "events s' = events s @ new"
        "collect sample_rho new = [] \<or> i < length rhos \<and> collect sample_rho new = [rhos ! i]"
        "\<forall>a. a \<noteq> critic c \<longrightarrow> a \<notin> set (baseline_params (baseline c)) \<longrightarrow>
             params s' a = params s a"
      by blast
    from n(2) show ?thesis
    proof
      assume "collect sample_rho new = []"
      with n show ?thesis
        by (intro exI [of _ new] exI [of _ 0]) simp
    next
      assume "i < length rhos \<and> collect sample_rho new = [rhos ! i]"
      with n show ?thesis
        by (intro exI [of _ new] exI [of _ "Suc 0"]) simp
    qed
  next
    case (continued mi s1)
    from iteration_Inr [OF continued(1)] train_step_Inr [OF w]
    have i: "i < length rhos" and "\<exists>new. events s1 = events s @ new \<and>
        collect sample_rho new = [rhos ! i]"
      by (cases "baseline c"; fastforce simp: collect_simps)+
    with iteration_any [OF w continued(1)] obtain new1 where
      n1: "events s1 = events s @ new1" "collect sample_rho new1 = [rhos ! i]"
        "\<forall>a. a \<noteq> critic c \<longrightarrow> a \<notin> set (baseline_params (baseline c)) \<longrightarrow>
             params s1 a = params s a"
      by auto
    from Cons.IH [OF continued(2)] obtain new2 k where
      n2: "events s' = events s1 @ new2" "k \<le> length rest"
        "list_all (\<lambda>i. i < length rhos) (take k rest)"
        "collect sample_rho new2 = map ((!) rhos) (take k rest)"
        "\<forall>a. a \<noteq> critic c \<longrightarrow> a \<notin> set (baseline_params (baseline c)) \<longrightarrow>
             params s' a = params s1 a"
      by blast
    show ?thesis
      apply (rule exI [of _ "new1 @ new2"])
      apply (rule exI [of _ "Suc k"])
      using n1 n2 i
      apply (simp add: collect_simps)
      done
  qed
qed

lemma map_nth_upt:
  "list_all (\<lambda>i. i < length xs) [0..<k] \<Longrightarrow> map ((!) xs) [0..<k] = take k xs \<and> k \<le> length xs"
proof (induction k)
  case 0
  show ?case by simp
next
  case (Suc k)
  then show ?case by (simp add: take_Suc_conv_app_nth)
qed

section \<open>The set-up and the whole run\<close>

lemma new_critic_any:
  assumes "new_critic env key rho kw s = (r, s')"
  shows "(events s' = events s \<and> (\<exists>e. r = Inl e)) \<or> events s' = events s @ [NewCritic key rho kw]"
  using assms
  by (auto simp: new_critic_apply split: option.splits if_splits prod.splits sum.splits)

lemma new_baseline_any:
  assumes "new_baseline env key s = (r, s')"
  shows "(events s' = events s \<and> r = Inl (KeyError key) \<and> BASELINES env key = None) \<or>
         events s' = events s @ [NewBaseline key]"
proof (cases "BASELINES env key")
  case None
  with assms show ?thesis by (auto simp: new_baseline_def raise_apply)
next
  case (Some lam)
  obtain r1 s1 where c: "call (NewBaseline key) s = (r1, s1)" by (cases "call (NewBaseline key) s")
  then have s1: "events s1 = events s @ [NewBaseline key]" "r1 = Inr ()"
    by (auto simp: call_apply)
  from assms Some c s1 have "lam s1 = (r, s')"
    by (simp add: new_baseline_def and_then_apply)
  from appendsD [OF BASELINES_silent [OF Some, of "\<lambda>e. False"] this] s1
  show ?thesis by (auto simp: list_all_iff)
qed

lemma new_Adam_any:
  assumes "new_Adam env a opt_params s = (r, s')"
  shows "(events s' = events s \<and> (\<exists>e. r = Inl e)) \<or> (\<exists>lr. events s' = events s @ [NewAdam a lr])"
  using assms by (auto simp: new_Adam_apply split: sum.splits)

lemma baseline_Adam_any:
  assumes "(case base of
              Module b \<Rightarrow> and_then (new_Adam env b opt_params) (\<lambda>ob. succeed (Some ob))
            | _ \<Rightarrow> succeed None) s = (r, s')"
  shows "events s' = events s \<or> (\<exists>b lr. events s' = events s @ [NewAdam b lr])"
  using assms
  by (cases base) (auto simp: succeed_apply elim!: and_then_cases dest!: new_Adam_any)

text \<open>The log of the set-up: no call of a training iteration; at most one critic, built
  without a correlation, and at most one baseline; exactly one of each when it returns.\<close>

lemma prepare_any:
  assumes "prepare env critic_params data_params mi_params opt_params s = (r, s')"
  shows "\<exists>new. events s' = events s @ new \<and> collect training_call new = [] \<and>
           (collect critic_rho new = [] \<or> collect critic_rho new = [PNone]) \<and>
           (collect critic_key new = [] \<or>
            collect critic_key new = [get mi_params ''critic'' (PStr ''separable'')]) \<and>
           (collect baseline_key new = [] \<or>
            collect baseline_key new = [get mi_params ''baseline'' (PStr ''constant'')]) \<and>
           (\<forall>x. r = Inr x \<longrightarrow> collect critic_rho new = [PNone] \<and>
                 collect baseline_key new = [get mi_params ''baseline'' (PStr ''constant'')])"
  using assms unfolding prepare_def
  apply (elim and_then_cases)
  apply (auto simp: collect_simps succeed_apply
      dest!: new_critic_any new_baseline_any new_Adam_any baseline_Adam_any lift_any)
  done

lemma collect_Nil_iff: "collect f es = [] \<longleftrightarrow> list_all (\<lambda>e. f e = []) es"
  by (induction es) (simp_all add: collect_def)

lemma collect_subset: "list_all (\<lambda>e. set (f e) \<subseteq> A) es \<Longrightarrow> set (collect f es) \<subseteq> A"
  by (induction es) (simp_all add: collect_def)

lemma list_all_weaken: "list_all P es \<Longrightarrow> (\<And>e. P e \<Longrightarrow> Q e) \<Longrightarrow> list_all Q es"
  by (induction es) simp_all

lemma set_up_call:
  assumes "training_call e = []"
  shows "sample_rho e = [] \<and> sample_batch e = [] \<and> estimate_batch e = [] \<and>
         estimate_name e = [] \<and> estimate_critic e = [] \<and> estimate_baseline e = [] \<and>
         estimate_device e = [] \<and> estimate_result e = [] \<and> backward_loss e = [] \<and>
         step_target e = []"
  using assms by (cases e) simp_all

lemma set_up_log:
  assumes "collect training_call new = []"
  shows "collect sample_rho new = [] \<and> collect sample_batch new = [] \<and>
         collect estimate_batch new = [] \<and> collect estimate_name new = [] \<and>
         collect estimate_critic new = [] \<and> collect estimate_baseline new = [] \<and>
         collect estimate_device new = [] \<and> collect estimate_result new = [] \<and>
         collect backward_loss new = [] \<and> collect step_target new = []"
  using assms unfolding collect_Nil_iff
  by (auto elim!: list_all_weaken dest: set_up_call)

lemma appends_train_step_log:
  assumes "wired c"
  shows "appends (training_log c mi_params) (train_step env c kwargs rho data_params mi_params)"
  using assms
  by (intro appends_train_step) (cases "baseline c"; auto simp: training_log_def)+

lemma appends_training_log:
  assumes "wired c"
  shows "appends (training_log c mi_params)
           (training env c kwargs rhos data_params mi_params opt_params)"
  by (intro appends_training appends_train_step_log assms)

lemma training_log:
  assumes "list_all (training_log c mi_params) new"
  shows "collect critic_rho new = [] \<and> collect critic_key new = [] \<and>
         collect baseline_key new = [] \<and>
         set (collect estimate_critic new) \<subseteq> {critic c} \<and>
         set (collect estimate_baseline new) \<subseteq> {baseline c} \<and>
         set (collect estimate_device new) \<subseteq> {''cuda:4''} \<and>
         set (collect estimate_name new) \<subseteq> {name. mi_params ''estimator'' = Some name} \<and>
         set (collect step_target new) \<subseteq> insert (critic c) (set (baseline_params (baseline c)))"
  unfolding collect_Nil_iff
  by (intro conjI collect_subset list_all_weaken [OF assms]) (simp_all add: training_log_def)

text \<open>The log of a whole run: the calls of the set-up, then the calls of the loop, for the
  one closure that the set-up returned.\<close>

lemma train_estimator_any:
  assumes "train_estimator env critic_params data_params mi_params opt_params kwargs s = (r, s')"
  shows "\<exists>n0 n1 c. events s' = events s @ n0 @ n1 \<and> collect training_call n0 = [] \<and>
           (collect critic_rho n0 = [] \<or> collect critic_rho n0 = [PNone]) \<and>
           (collect critic_key n0 = [] \<or>
            collect critic_key n0 = [get mi_params ''critic'' (PStr ''separable'')]) \<and>
           (collect baseline_key n0 = [] \<or>
            collect baseline_key n0 = [get mi_params ''baseline'' (PStr ''constant'')]) \<and>
           list_all (training_log c mi_params) n1 \<and>
           (n1 \<noteq> [] \<or> (\<exists>est. r = Inr est) \<longrightarrow>
              collect critic_rho n0 = [PNone] \<and>
              collect baseline_key n0 = [get mi_params ''baseline'' (PStr ''constant'')])"
  using assms
proof (cases rule: train_estimator_cases)
  case (failed e)
  from prepare_any [OF failed(1)] obtain n0 where
    n0: "events s' = events s @ n0" "collect training_call n0 = []"
      "collect critic_rho n0 = [] \<or> collect critic_rho n0 = [PNone]"
      "collect critic_key n0 = [] \<or>
       collect critic_key n0 = [get mi_params ''critic'' (PStr ''separable'')]"
      "collect baseline_key n0 = [] \<or>
       collect baseline_key n0 = [get mi_params ''baseline'' (PStr ''constant'')]"
    by blast
  show ?thesis
    apply (rule exI [of _ n0])
    apply (rule exI [of _ "[]"])
    using n0 failed(2)
    apply simp
    done
next
  case (trained c rhos s1)
  from prepare_Inr [OF trained(1)] have w: "wired c" by simp
  from prepare_any [OF trained(1)] obtain n0 where
    n0: "events s1 = events s @ n0" "collect training_call n0 = []"
      "collect critic_rho n0 = [PNone]"
      "collect critic_key n0 = [] \<or>
       collect critic_key n0 = [get mi_params ''critic'' (PStr ''separable'')]"
      "collect baseline_key n0 = [get mi_params ''baseline'' (PStr ''constant'')]"
    by auto
  from appendsD [OF appends_training_log [OF w] trained(2)] obtain n1 where
    n1: "events s' = events s1 @ n1" "list_all (training_log c mi_params) n1"
    by blast
  show ?thesis
    apply (rule exI [of _ n0])
    apply (rule exI [of _ n1])
    apply (rule exI [of _ c])
    using n0 n1
    apply simp
    done
qed

text \<open>With an integer for the iteration count, the training is the loop over
  \<^verbatim>\<open>range(n)\<close>.\<close>

lemma training_Inr:
  assumes "training env c kwargs rhos data_params mi_params opt_params s = (Inr est, s')"
    and "opt_params ''iterations'' = Some (PInt n)"
  shows "for_loop (iteration env c kwargs rhos data_params mi_params) [0..<nat n] [] s
           = (Inr est, s')"
  using assms unfolding training_unfold
  by (elim and_then_InrE) (auto simp: lift_apply getitem_def)

lemma training_eq:
  assumes "opt_params ''iterations'' = Some (PInt n)"
  shows "training env c kwargs rhos data_params mi_params opt_params
           = for_loop (iteration env c kwargs rhos data_params mi_params) [0..<nat n] []"
  using assms
  by (intro ext) (simp add: training_unfold and_then_apply lift_apply getitem_def)

text \<open>Lines 79 and 81, the first two statements of \<^verbatim>\<open>train_estimator\<close>: a failure of
  either is the outcome of the call.\<close>

lemma critic_failure:
  assumes "new_critic env (get mi_params ''critic'' (PStr ''separable'')) PNone critic_params s
             = (Inl e, s1)"
  shows "train_estimator env critic_params data_params mi_params opt_params kwargs s
           = (Inl e, s1)"
  using assms by (simp add: train_estimator_def prepare_def and_then_apply)

lemma baseline_failure:
  assumes "new_critic env (get mi_params ''critic'' (PStr ''separable'')) PNone critic_params s
             = (Inr a, s1)"
    and "new_baseline env (get mi_params ''baseline'' (PStr ''constant'')) s1 = (Inl e, s2)"
  shows "train_estimator env critic_params data_params mi_params opt_params kwargs s
           = (Inl e, s2)"
  using assms by (simp add: train_estimator_def prepare_def and_then_apply)

text \<open>The baseline of the closure is the object that line 81 built.\<close>

lemma prepare_after_baseline:
  assumes c: "new_critic env (get mi_params ''critic'' (PStr ''separable'')) PNone critic_params s
             = (Inr a, s1)"
    and b: "new_baseline env (get mi_params ''baseline'' (PStr ''constant'')) s1 = (Inr b, s2)"
    and p: "prepare env critic_params data_params mi_params opt_params s = (r, s')"
  shows "\<exists>new. events s' = events s @ new \<and>
           collect baseline_key new = [get mi_params ''baseline'' (PStr ''constant'')] \<and>
           (\<forall>c rhos. r = Inr (c, rhos) \<longrightarrow> baseline c = b)"
  using p unfolding prepare_def
  apply (elim and_then_cases)
  using c b
          apply (auto simp: collect_simps succeed_apply
      dest!: new_critic_any new_baseline_any new_Adam_any baseline_Adam_any lift_any)
  done

text \<open>Each estimation call has one batch, one name, one critic and one baseline.\<close>

lemma length_collect_estimate:
  "length (collect estimate_baseline evs) = length (collect estimate_batch evs)"
  "length (collect estimate_name evs) = length (collect estimate_batch evs)"
proof (induction evs)
  case Nil
  {
    case 1 show ?case by (simp add: collect_def)
  next
    case 2 show ?case by (simp add: collect_def)
  }
next
  case (Cons e evs)
  {
    case 1 with Cons show ?case by (cases e) (simp_all add: collect_def)
  next
    case 2 with Cons show ?case by (cases e) (simp_all add: collect_def)
  }
qed

text \<open>A run that returns: the set-up, then the loop over \<^verbatim>\<open>range(n)\<close>.\<close>

lemma returned_run:
  assumes "train_estimator env critic_params data_params mi_params opt_params kwargs s
             = (Inr est, s')"
    and "opt_params ''iterations'' = Some (PInt n)"
  shows "\<exists>c rhos s1 n0 n1.
           prepare env critic_params data_params mi_params opt_params s = (Inr (c, rhos), s1) \<and>
           wired c \<and> events s1 = events s @ n0 \<and> collect training_call n0 = [] \<and>
           events s' = events s1 @ n1 \<and> list_all (training_log c mi_params) n1 \<and>
           length (collect sample_batch n1) = nat n \<and>
           collect sample_batch n1 = collect estimate_batch n1 \<and>
           map (detach_cpu_numpy env) (collect estimate_result n1) = map Inr est"
  using assms(1)
proof (cases rule: train_estimator_cases)
  case (failed e)
  then show ?thesis by simp
next
  case (trained c rhos s1)
  from prepare_Inr [OF trained(1)] have w: "wired c"
    by simp
  from prepare_any [OF trained(1)] obtain n0 where
    n0: "events s1 = events s @ n0" "collect training_call n0 = []"
    by blast
  from appendsD [OF appends_training_log [OF w] trained(2)] obtain n1 where
    n1: "events s' = events s1 @ n1" "list_all (training_log c mi_params) n1"
    by blast
  from loop_Inr [OF w training_Inr [OF trained(2) assms(2)]] n1(1) have
    "length (collect sample_batch n1) = nat n"
    "collect sample_batch n1 = collect estimate_batch n1"
    "map (detach_cpu_numpy env) (collect estimate_result n1) = map Inr est"
    by auto
  with trained(1) w n0 n1 show ?thesis
    by blast
qed

section \<open>Running the concrete instance\<close>

lemma env0_simps:
  "dim env0 = 20"
  "device env0 = ''cpu''"
  "SeparableCritic env0 rho kw g = (Inr 100, Suc g)"
  "ConcatCritic env0 rho kw g = (Inr 200, Suc g)"
  "mlp env0 kw g = (Inr 300, Suc g)"
  "to_device env0 m d = Inr m"
  "Adam_init env0 lr = Inr 0"
  "Adam_step env0 m p gr = Inr (m + 1, p - gr)"
  "mi_schedule env0 (PInt k) = (if k < 0 then Inl (Failure ''ValueError'') else Inr k)"
  "mi_to_rho env0 dv mis = Inr (map (\<lambda>i. 10 * int i + 5) [0..<nat mis])"
  "sample_correlated_gaussian env0 dv r bs cubic g =
     (if r < 20 then (Inr (r + int g, r - int g), Suc g)
      else (Inl (Failure ''correlation out of range''), g))"
  "estimate_mutual_information env0 name x y c b alpha dev kw ps =
     (if name \<in> set [PStr ''infonce'', PStr ''nwj'', PStr ''js'', PStr ''smile'',
                        PStr ''conditional'']
      then Inr (x + y) else Inl (Failure ''unknown estimator''))"
  "negate env0 v = Inr (- v)"
  "autograd env0 loss ps = Inr (\<lambda>a. if ps a = None then None else Some loss)"
  "accumulate env0 v w = v + w"
  "detach_cpu_numpy env0 v = Inr v"
  by (simp_all add: env0_def)

lemma params0_simps:
  "getitem data_params0 ''dim'' = Inr (PInt 20)"
  "getitem data_params0 ''batch_size'' = Inr (PInt 64)"
  "getitem data_params0 ''cubic'' = Inr PNone"
  "getitem (opt_params0 n) ''iterations'' = Inr (PInt n)"
  "getitem (opt_params0 n) ''learning_rate'' = Inr (PVal 5)"
  "getitem (mi_params0 e c b) ''estimator'' = Inr (PStr e)"
  "getitem (mi_params0 e c b) ''critic'' = Inr (PStr c)"
  "get (mi_params0 e c b) ''critic'' dflt = PStr c"
  "get (mi_params0 e c b) ''baseline'' dflt = PStr b"
  "get (mi_params0 e c b) ''alpha_logit'' dflt = dflt"
  "critic_params0 ''rho'' = None"
  by (simp_all add: getitem_def get_def data_params0_def opt_params0_def mi_params0_def
      critic_params0_def)

lemma params0_maps:
  "data_params0 ''dim'' = Some (PInt 20)"
  "opt_params0 n ''iterations'' = Some (PInt n)"
  "mi_params0 e c b ''estimator'' = Some (PStr e)"
  "mi_params0 e c b ''critic'' = Some (PStr c)"
  "mi_params0 e c b ''baseline'' = Some (PStr b)"
  by (simp_all add: data_params0_def opt_params0_def mi_params0_def)

lemmas run_simps = train_estimator_def prepare_def training_unfold iteration_def train_step_def
  applied new_baseline_def CRITICS_def BASELINES_def index_def env0_simps params0_simps s0_def
  upt_conv_Cons

text \<open>The notebook's configuration (the SMILE estimator, a separable critic, a learned
  baseline), for two iterations.\<close>

lemma run_two_iterations:
  "\<exists>s'. train_estimator env0 critic_params0 data_params0
          (mi_params0 ''smile'' ''separable'' ''unnormalized'') (opt_params0 2) Map.empty s0
          = (Inr [10, 30], s') \<and>
        events s' =
          [NewCritic (PStr ''separable'') PNone critic_params0,
           NewBaseline (PStr ''unnormalized''), NewAdam 0 (PVal 5), NewAdam 1 (PVal 5),
           ZeroGrad 0, ZeroGrad 1,
           Sample (PInt 20) 5 (PInt 64) PNone (Inr (7, 3)),
           Estimate (PStr ''smile'') 7 3 0 (Module 1) PNone ''cuda:4'' Map.empty (Inr 10),
           Backward (- 10), Step 0, Step 1,
           ZeroGrad 0, ZeroGrad 1,
           Sample (PInt 20) 15 (PInt 64) PNone (Inr (18, 12)),
           Estimate (PStr ''smile'') 18 12 0 (Module 1) PNone ''cuda:4'' Map.empty (Inr 30),
           Backward (- 30), Step 0, Step 1] \<and>
        params s' = [0 \<mapsto> 140, 1 \<mapsto> 340]"
  apply (rule exI)
  apply (rule conjI)
   apply (simp add: run_simps)
  apply simp
  done

section \<open>The conditional critic\<close>

text \<open>C8. \<^verbatim>\<open>CRITICS\<close> has the keys \<^verbatim>\<open>'separable'\<close> and \<^verbatim>\<open>'concat'\<close> only. So every call of
  \<^verbatim>\<open>train_estimator\<close> whose \<^verbatim>\<open>mi_params['critic']\<close> is \<^verbatim>\<open>'conditional'\<close> raises
  \<^verbatim>\<open>KeyError('conditional')\<close> at the first construction of the critic: nothing has been
  called and nothing has changed (the world is returned as it was), so no iteration has
  run. The branch of \<^verbatim>\<open>train_step\<close> that rebuilds the critic is never taken by a run, and
  could build nothing: a step with that configuration raises the same error, and the log
  of every run holds at most one construction of a critic, the one of the set-up, made
  without a correlation (\<^verbatim>\<open>rho=None\<close>).\<close>

theorem conditional_critic_is_never_built:
  "(mi_params ''critic'' = Some (PStr ''conditional'') \<longrightarrow>
      train_estimator env critic_params data_params mi_params opt_params kwargs s
        = (Inl (KeyError (PStr ''conditional'')), s)) \<and>
   (mi_params ''critic'' = Some (PStr ''conditional'') \<longrightarrow> wired c \<longrightarrow>
      fst (train_step env c kwargs rho data_params mi_params s)
        = Inl (KeyError (PStr ''conditional''))) \<and>
   (train_estimator env critic_params data_params mi_params opt_params kwargs s = (r, s') \<longrightarrow>
      (\<exists>new. events s' = events s @ new \<and>
         (collect critic_rho new = [] \<or> collect critic_rho new = [PNone])))"
proof (intro conjI impI)
  assume "mi_params ''critic'' = Some (PStr ''conditional'')"
  then show "train_estimator env critic_params data_params mi_params opt_params kwargs s
               = (Inl (KeyError (PStr ''conditional'')), s)"
    by (simp add: train_estimator_def prepare_def get_def new_critic_apply and_then_apply
        conditional_not_in_CRITICS)
next
  assume "mi_params ''critic'' = Some (PStr ''conditional'')" and w: "wired c"
  then show "fst (train_step env c kwargs rho data_params mi_params s)
               = Inl (KeyError (PStr ''conditional''))"
    by (cases "baseline c")
       (simp_all add: train_step_def and_then_apply zero_grad_apply succeed_apply lift_apply
          getitem_def new_critic_apply conditional_not_in_CRITICS)
next
  assume "train_estimator env critic_params data_params mi_params opt_params kwargs s = (r, s')"
  from train_estimator_any [OF this] obtain n0 n1 c where
    "events s' = events s @ n0 @ n1"
    "collect critic_rho n0 = [] \<or> collect critic_rho n0 = [PNone]"
    "list_all (training_log c mi_params) n1"
    by blast
  then show "\<exists>new. events s' = events s @ new \<and>
               (collect critic_rho new = [] \<or> collect critic_rho new = [PNone])"
    by (intro exI [of _ "n0 @ n1"]) (auto simp: collect_append dest: training_log)
qed

theorem conditional_critic_is_never_built_witness:
  "mi_params0 ''smile'' ''conditional'' ''constant'' ''critic'' = Some (PStr ''conditional'') \<and>
   train_estimator env0 critic_params0 data_params0
     (mi_params0 ''smile'' ''conditional'' ''constant'') (opt_params0 2) Map.empty s0
     = (Inl (KeyError (PStr ''conditional'')), s0) \<and>
   wired \<lparr>critic = 0, baseline = NoBaseline, opt_crit = Adam 0, opt_base = None\<rparr> \<and>
   fst (train_step env0 \<lparr>critic = 0, baseline = NoBaseline, opt_crit = Adam 0, opt_base = None\<rparr>
          Map.empty 5 data_params0 (mi_params0 ''smile'' ''conditional'' ''constant'') s0)
     = Inl (KeyError (PStr ''conditional'')) \<and>
   (\<exists>s'. train_estimator env0 critic_params0 data_params0
            (mi_params0 ''smile'' ''separable'' ''unnormalized'') (opt_params0 2) Map.empty s0
            = (Inr [10, 30], s') \<and>
          collect critic_rho (events s') = [PNone])"
proof -
  have c: "mi_params0 ''smile'' ''conditional'' ''constant'' ''critic'' = Some (PStr ''conditional'')"
    by (simp add: params0_maps)
  have w: "wired \<lparr>critic = 0, baseline = NoBaseline, opt_crit = Adam 0, opt_base = None\<rparr>"
    by simp
  note t = conditional_critic_is_never_built
    [of "mi_params0 ''smile'' ''conditional'' ''constant''" env0 critic_params0 data_params0
      "opt_params0 2" Map.empty s0
      "\<lparr>critic = 0, baseline = NoBaseline, opt_crit = Adam 0, opt_base = None\<rparr>" 5]
  from run_two_iterations obtain s' where
    run: "train_estimator env0 critic_params0 data_params0
            (mi_params0 ''smile'' ''separable'' ''unnormalized'') (opt_params0 2) Map.empty s0
            = (Inr [10, 30], s')"
    and log: "collect critic_rho (events s') = [PNone]"
    by (auto simp: collect_simps)
  from c w t run log show ?thesis by blast
qed

section \<open>The device of the estimation call\<close>



section \<open>The baseline\<close>

lemma run_after_critic_failure:
  assumes c: "new_critic env (get mi_params ''critic'' (PStr ''separable'')) PNone critic_params s
                = (Inl e, sc)"
    and run: "train_estimator env critic_params data_params mi_params opt_params kwargs s = (r, s')"
  shows "r = Inl e \<and> s' = sc \<and>
         (\<exists>new. events s' = events s @ new \<and> collect baseline_key new = [])"
proof -
  from critic_failure [OF c, of data_params opt_params kwargs] run have "r = Inl e" "s' = sc"
    by simp_all
  moreover from new_critic_any [OF c] \<open>s' = sc\<close>
  have "\<exists>new. events s' = events s @ new \<and> collect baseline_key new = []"
    by (auto simp: collect_simps)
  ultimately show ?thesis by blast
qed

lemma run_after_baseline:
  assumes c: "new_critic env (get mi_params ''critic'' (PStr ''separable'')) PNone critic_params s
                = (Inr a, sc)"
    and b: "new_baseline env (get mi_params ''baseline'' (PStr ''constant'')) sc = (Inr b, sb)"
    and run: "train_estimator env critic_params data_params mi_params opt_params kwargs s = (r, s')"
  shows "\<exists>new. events s' = events s @ new \<and>
           collect baseline_key new = [get mi_params ''baseline'' (PStr ''constant'')] \<and>
           set (collect estimate_baseline new) \<subseteq> {b} \<and>
           (\<forall>est n. r = Inr est \<longrightarrow> opt_params ''iterations'' = Some (PInt n) \<longrightarrow>
              collect estimate_baseline new = replicate (nat n) b)"
  using run
proof (cases rule: train_estimator_cases)
  case (failed e)
  from prepare_after_baseline [OF c b failed(1)] obtain new where
    n: "events s' = events s @ new"
      "collect baseline_key new = [get mi_params ''baseline'' (PStr ''constant'')]"
    by blast
  from prepare_any [OF failed(1)] n(1) have "collect training_call new = []"
    by auto
  from set_up_log [OF this] n failed(2) show ?thesis
    by auto
next
  case (trained c rhos s1)
  from prepare_Inr [OF trained(1)] have w: "wired c"
    by simp
  from prepare_after_baseline [OF c b trained(1)] obtain n0 where
    n0: "events s1 = events s @ n0"
      "collect baseline_key n0 = [get mi_params ''baseline'' (PStr ''constant'')]"
      "baseline c = b"
    by blast
  from prepare_any [OF trained(1)] n0(1) have "collect training_call n0 = []"
    by auto
  from set_up_log [OF this] have e0: "collect estimate_baseline n0 = []"
    by simp
  from appendsD [OF appends_training_log [OF w] trained(2)] obtain n1 where
    n1: "events s' = events s1 @ n1" "list_all (training_log c mi_params) n1"
    by blast
  from training_log [OF n1(2)] n0(3) have e1: "collect baseline_key n1 = []"
    "set (collect estimate_baseline n1) \<subseteq> {b}"
    by simp_all
  have "collect estimate_baseline n1 = replicate (nat n) b"
    if "r = Inr est" "opt_params ''iterations'' = Some (PInt n)" for est n
  proof -
    from trained(2) that(1) have
      "training env c kwargs rhos data_params mi_params opt_params s1 = (Inr est, s')"
      by simp
    from loop_Inr [OF w training_Inr [OF this that(2)]] n1(1) have
      "length (collect sample_batch n1) = nat n"
      "collect sample_batch n1 = collect estimate_batch n1"
      by auto
    then have "length (collect estimate_baseline n1) = nat n"
      by (simp add: length_collect_estimate)
    moreover from e1(2) have "replicate (length (collect estimate_baseline n1)) b
        = collect estimate_baseline n1"
      by (intro replicate_length_same) auto
    ultimately show ?thesis
      by simp
  qed
  with n0 n1 e0 e1 show ?thesis
    by (intro exI [of _ "n0 @ n1"]) (simp add: collect_append)
qed

text \<open>C10, as the code has it. The baseline is built by the set-up, at line 81, and by
  nothing else: the log of a run holds at most one construction of a baseline, and exactly
  one as soon as the run has asked for an estimate or has returned a trace. A call whose
  construction of the critic, at line 79, raises ends there and builds no baseline. When
  line 79 returns and line 81 raises, the call ends with that failure. When line 81
  returns the baseline \<open>b\<close>, that construction is the only one in the log and every
  estimation call of the run is handed \<open>b\<close>: in a run of \<open>n\<close> iterations that returns,
  there are \<open>n\<close> estimation calls, each with \<open>b\<close>. A training step, over a closure
  wired as the set-up wires it, builds no baseline and hands the baseline of its closure
  to the estimator, whatever \<^verbatim>\<open>mi_params['critic']\<close> is.\<close>

theorem baseline_is_built_once_and_shared:
  "(train_estimator env critic_params data_params mi_params opt_params kwargs s = (r, s') \<longrightarrow>
      (\<exists>new. events s' = events s @ new \<and> length (collect baseline_key new) \<le> 1 \<and>
         (collect estimate_baseline new \<noteq> [] \<or> (\<exists>est. r = Inr est) \<longrightarrow>
            length (collect baseline_key new) = 1) \<and>
         (\<forall>e sc. new_critic env (get mi_params ''critic'' (PStr ''separable'')) PNone
                    critic_params s = (Inl e, sc) \<longrightarrow>
            r = Inl e \<and> s' = sc \<and> collect baseline_key new = []) \<and>
         (\<forall>a sc e sb. new_critic env (get mi_params ''critic'' (PStr ''separable'')) PNone
                    critic_params s = (Inr a, sc) \<longrightarrow>
            new_baseline env (get mi_params ''baseline'' (PStr ''constant'')) sc = (Inl e, sb) \<longrightarrow>
            r = Inl e \<and> s' = sb) \<and>
         (\<forall>a sc b sb. new_critic env (get mi_params ''critic'' (PStr ''separable'')) PNone
                    critic_params s = (Inr a, sc) \<longrightarrow>
            new_baseline env (get mi_params ''baseline'' (PStr ''constant'')) sc = (Inr b, sb) \<longrightarrow>
            collect baseline_key new = [get mi_params ''baseline'' (PStr ''constant'')] \<and>
            set (collect estimate_baseline new) \<subseteq> {b} \<and>
            (\<forall>est n. r = Inr est \<longrightarrow> opt_params ''iterations'' = Some (PInt n) \<longrightarrow>
               collect estimate_baseline new = replicate (nat n) b)))) \<and>
   (wired c \<longrightarrow> train_step env c kwargs rho data_params mi_params s = (r1, s1) \<longrightarrow>
      (\<exists>new. events s1 = events s @ new \<and> collect baseline_key new = [] \<and>
         set (collect estimate_baseline new) \<subseteq> {baseline c}))"
proof (rule conjI)
  show "train_estimator env critic_params data_params mi_params opt_params kwargs s = (r, s') \<longrightarrow>
      (\<exists>new. events s' = events s @ new \<and> length (collect baseline_key new) \<le> 1 \<and>
         (collect estimate_baseline new \<noteq> [] \<or> (\<exists>est. r = Inr est) \<longrightarrow>
            length (collect baseline_key new) = 1) \<and>
         (\<forall>e sc. new_critic env (get mi_params ''critic'' (PStr ''separable'')) PNone
                    critic_params s = (Inl e, sc) \<longrightarrow>
            r = Inl e \<and> s' = sc \<and> collect baseline_key new = []) \<and>
         (\<forall>a sc e sb. new_critic env (get mi_params ''critic'' (PStr ''separable'')) PNone
                    critic_params s = (Inr a, sc) \<longrightarrow>
            new_baseline env (get mi_params ''baseline'' (PStr ''constant'')) sc = (Inl e, sb) \<longrightarrow>
            r = Inl e \<and> s' = sb) \<and>
         (\<forall>a sc b sb. new_critic env (get mi_params ''critic'' (PStr ''separable'')) PNone
                    critic_params s = (Inr a, sc) \<longrightarrow>
            new_baseline env (get mi_params ''baseline'' (PStr ''constant'')) sc = (Inr b, sb) \<longrightarrow>
            collect baseline_key new = [get mi_params ''baseline'' (PStr ''constant'')] \<and>
            set (collect estimate_baseline new) \<subseteq> {b} \<and>
            (\<forall>est n. r = Inr est \<longrightarrow> opt_params ''iterations'' = Some (PInt n) \<longrightarrow>
               collect estimate_baseline new = replicate (nat n) b)))"
  proof
    assume run: "train_estimator env critic_params data_params mi_params opt_params kwargs s
                   = (r, s')"
    from train_estimator_any [OF run] obtain n0 n1 c where
      n: "events s' = events s @ n0 @ n1" "collect training_call n0 = []"
        "collect baseline_key n0 = [] \<or>
         collect baseline_key n0 = [get mi_params ''baseline'' (PStr ''constant'')]"
        "list_all (training_log c mi_params) n1"
        "n1 \<noteq> [] \<or> (\<exists>est. r = Inr est) \<longrightarrow>
           collect baseline_key n0 = [get mi_params ''baseline'' (PStr ''constant'')]"
      by blast
    define new where "new = n0 @ n1"
    from n(1) have ev: "events s' = events s @ new"
      by (simp add: new_def)
    from set_up_log [OF n(2)] have e0: "collect estimate_baseline n0 = []"
      by simp
    from training_log [OF n(4)] have e1: "collect baseline_key n1 = []"
      by simp
    have "n1 = [] \<Longrightarrow> collect estimate_baseline n1 = []"
      by (simp add: collect_Nil)
    with n e0 e1 have 1: "length (collect baseline_key new) \<le> 1"
      and 2: "collect estimate_baseline new \<noteq> [] \<or> (\<exists>est. r = Inr est) \<longrightarrow>
            length (collect baseline_key new) = 1"
      by (auto simp: new_def collect_append)
    have 3: "\<forall>e sc. new_critic env (get mi_params ''critic'' (PStr ''separable'')) PNone
                    critic_params s = (Inl e, sc) \<longrightarrow>
            r = Inl e \<and> s' = sc \<and> collect baseline_key new = []"
    proof (intro allI impI)
      fix e sc
      assume "new_critic env (get mi_params ''critic'' (PStr ''separable'')) PNone
                critic_params s = (Inl e, sc)"
      from run_after_critic_failure [OF this run] ev
      show "r = Inl e \<and> s' = sc \<and> collect baseline_key new = []"
        by auto
    qed
    have 4: "\<forall>a sc e sb. new_critic env (get mi_params ''critic'' (PStr ''separable'')) PNone
                    critic_params s = (Inr a, sc) \<longrightarrow>
            new_baseline env (get mi_params ''baseline'' (PStr ''constant'')) sc = (Inl e, sb) \<longrightarrow>
            r = Inl e \<and> s' = sb"
    proof (intro allI impI)
      fix a sc e sb
      assume "new_critic env (get mi_params ''critic'' (PStr ''separable'')) PNone
                critic_params s = (Inr a, sc)"
        and "new_baseline env (get mi_params ''baseline'' (PStr ''constant'')) sc = (Inl e, sb)"
      from baseline_failure [OF this, of data_params opt_params kwargs] run
      show "r = Inl e \<and> s' = sb"
        by simp
    qed
    have 5: "\<forall>a sc b sb. new_critic env (get mi_params ''critic'' (PStr ''separable'')) PNone
                    critic_params s = (Inr a, sc) \<longrightarrow>
            new_baseline env (get mi_params ''baseline'' (PStr ''constant'')) sc = (Inr b, sb) \<longrightarrow>
            collect baseline_key new = [get mi_params ''baseline'' (PStr ''constant'')] \<and>
            set (collect estimate_baseline new) \<subseteq> {b} \<and>
            (\<forall>est n. r = Inr est \<longrightarrow> opt_params ''iterations'' = Some (PInt n) \<longrightarrow>
               collect estimate_baseline new = replicate (nat n) b)"
    proof (intro allI impI)
      fix a sc b sb
      assume "new_critic env (get mi_params ''critic'' (PStr ''separable'')) PNone
                critic_params s = (Inr a, sc)"
        and "new_baseline env (get mi_params ''baseline'' (PStr ''constant'')) sc = (Inr b, sb)"
      from run_after_baseline [OF this run] ev
      show "collect baseline_key new = [get mi_params ''baseline'' (PStr ''constant'')] \<and>
            set (collect estimate_baseline new) \<subseteq> {b} \<and>
            (\<forall>est n. r = Inr est \<longrightarrow> opt_params ''iterations'' = Some (PInt n) \<longrightarrow>
               collect estimate_baseline new = replicate (nat n) b)"
        by auto
    qed
    from ev 1 2 3 4 5 show "\<exists>new. events s' = events s @ new \<and>
         length (collect baseline_key new) \<le> 1 \<and>
         (collect estimate_baseline new \<noteq> [] \<or> (\<exists>est. r = Inr est) \<longrightarrow>
            length (collect baseline_key new) = 1) \<and>
         (\<forall>e sc. new_critic env (get mi_params ''critic'' (PStr ''separable'')) PNone
                    critic_params s = (Inl e, sc) \<longrightarrow>
            r = Inl e \<and> s' = sc \<and> collect baseline_key new = []) \<and>
         (\<forall>a sc e sb. new_critic env (get mi_params ''critic'' (PStr ''separable'')) PNone
                    critic_params s = (Inr a, sc) \<longrightarrow>
            new_baseline env (get mi_params ''baseline'' (PStr ''constant'')) sc = (Inl e, sb) \<longrightarrow>
            r = Inl e \<and> s' = sb) \<and>
         (\<forall>a sc b sb. new_critic env (get mi_params ''critic'' (PStr ''separable'')) PNone
                    critic_params s = (Inr a, sc) \<longrightarrow>
            new_baseline env (get mi_params ''baseline'' (PStr ''constant'')) sc = (Inr b, sb) \<longrightarrow>
            collect baseline_key new = [get mi_params ''baseline'' (PStr ''constant'')] \<and>
            set (collect estimate_baseline new) \<subseteq> {b} \<and>
            (\<forall>est n. r = Inr est \<longrightarrow> opt_params ''iterations'' = Some (PInt n) \<longrightarrow>
               collect estimate_baseline new = replicate (nat n) b))"
      by (intro exI [of _ new] conjI)
  qed
next
  show "wired c \<longrightarrow> train_step env c kwargs rho data_params mi_params s = (r1, s1) \<longrightarrow>
      (\<exists>new. events s1 = events s @ new \<and> collect baseline_key new = [] \<and>
         set (collect estimate_baseline new) \<subseteq> {baseline c})"
  proof (intro impI)
    assume w: "wired c" and st: "train_step env c kwargs rho data_params mi_params s = (r1, s1)"
    from appendsD [OF appends_train_step_log [OF w] st] obtain new where
      "events s1 = events s @ new" "list_all (training_log c mi_params) new"
      by blast
    then show "\<exists>new. events s1 = events s @ new \<and> collect baseline_key new = [] \<and>
           set (collect estimate_baseline new) \<subseteq> {baseline c}"
      by (auto dest: training_log)
  qed
qed

lemma run_first_two_lines:
  "\<exists>sc sb. new_critic env0 (PStr ''separable'') PNone critic_params0 s0 = (Inr 0, sc) \<and>
           new_baseline env0 (PStr ''unnormalized'') sc = (Inr (Module 1), sb)"
  apply (rule exI)+
  apply (rule conjI)
   apply (simp add: run_simps)
  apply (simp add: run_simps)
  done

theorem baseline_is_built_once_and_shared_witness:
  "(\<exists>s'. train_estimator env0 critic_params0 data_params0
            (mi_params0 ''smile'' ''separable'' ''unnormalized'') (opt_params0 2) Map.empty s0
            = (Inr [10, 30], s') \<and>
          (\<exists>sc sb. new_critic env0 (PStr ''separable'') PNone critic_params0 s0 = (Inr 0, sc) \<and>
             new_baseline env0 (PStr ''unnormalized'') sc = (Inr (Module 1), sb)) \<and>
          opt_params0 2 ''iterations'' = Some (PInt 2) \<and>
          collect baseline_key (events s') = [PStr ''unnormalized''] \<and>
          collect estimate_baseline (events s') = [Module 1, Module 1] \<and>
          (\<exists>new. events s' = events s0 @ new \<and>
             collect baseline_key new = [PStr ''unnormalized''] \<and>
             collect estimate_baseline new = replicate (nat 2) (Module 1))) \<and>
   wired \<lparr>critic = 0, baseline = Module 1, opt_crit = Adam 0, opt_base = Some (Adam 1)\<rparr> \<and>
   (\<exists>new. events (snd (train_step env0
              \<lparr>critic = 0, baseline = Module 1, opt_crit = Adam 0, opt_base = Some (Adam 1)\<rparr>
              Map.empty 5 data_params0 (mi_params0 ''smile'' ''conditional'' ''unnormalized'') s0))
            = events s0 @ new \<and> collect baseline_key new = [] \<and>
          set (collect estimate_baseline new) \<subseteq> {Module 1})"
proof -
  let ?c = "\<lparr>critic = 0, baseline = Module 1, opt_crit = Adam 0, opt_base = Some (Adam 1)\<rparr>"
  note t = baseline_is_built_once_and_shared
    [where env = env0 and critic_params = critic_params0 and data_params = data_params0 and
      mi_params = "mi_params0 ''smile'' ''separable'' ''unnormalized''" and
      opt_params = "opt_params0 2" and kwargs = Map.empty and s = s0]
  have w: "wired ?c"
    by simp
  have it: "opt_params0 2 ''iterations'' = Some (PInt 2)"
    by (simp add: params0_maps)
  from run_first_two_lines obtain sc sb where
    lines: "new_critic env0 (PStr ''separable'') PNone critic_params0 s0 = (Inr 0, sc)"
      "new_baseline env0 (PStr ''unnormalized'') sc = (Inr (Module 1), sb)"
    by blast
  from run_two_iterations obtain s' where
    run: "train_estimator env0 critic_params0 data_params0
            (mi_params0 ''smile'' ''separable'' ''unnormalized'') (opt_params0 2) Map.empty s0
            = (Inr [10, 30], s')"
    and log: "collect baseline_key (events s') = [PStr ''unnormalized'']"
      "collect estimate_baseline (events s') = [Module 1, Module 1]"
    by (auto simp: collect_simps)
  from t run lines it have 1: "\<exists>new. events s' = events s0 @ new \<and>
             collect baseline_key new = [PStr ''unnormalized''] \<and>
             collect estimate_baseline new = replicate (nat 2) (Module 1)"
    by (simp add: params0_simps) blast
  from baseline_is_built_once_and_shared
    [where env = env0 and data_params = data_params0 and
      mi_params = "mi_params0 ''smile'' ''conditional'' ''unnormalized''" and
      kwargs = Map.empty and s = s0 and c = ?c and rho = 5 and
      ?r1.0 = "fst (train_step env0 ?c Map.empty 5 data_params0
              (mi_params0 ''smile'' ''conditional'' ''unnormalized'') s0)" and
      ?s1.0 = "snd (train_step env0 ?c Map.empty 5 data_params0
              (mi_params0 ''smile'' ''conditional'' ''unnormalized'') s0)"] w
  have 2: "\<exists>new. events (snd (train_step env0 ?c Map.empty 5 data_params0
              (mi_params0 ''smile'' ''conditional'' ''unnormalized'') s0))
            = events s0 @ new \<and> collect baseline_key new = [] \<and>
          set (collect estimate_baseline new) \<subseteq> {Module 1}"
    by simp
  from run lines it log 1 2 w show ?thesis by blast
qed

text \<open>C10, as stated, fails for a call that raises at line 79: no baseline is ever
  built, be the critic \<^verbatim>\<open>'conditional'\<close> or any other name that \<^verbatim>\<open>CRITICS\<close> lacks.\<close>

theorem baseline_is_not_built_counterexample:
  "collect baseline_key (events (snd (train_estimator env0 critic_params0 data_params0
     (mi_params0 ''smile'' ''conditional'' ''constant'') (opt_params0 2) Map.empty s0))) = [] \<and>
   collect baseline_key (events (snd (train_estimator env0 critic_params0 data_params0
     (mi_params0 ''smile'' ''bogus'' ''constant'') (opt_params0 2) Map.empty s0))) = []"
  by (simp add: run_simps collect_simps)

section \<open>Unknown names\<close>

lemma prepare_Inr_keys:
  assumes "prepare env critic_params data_params mi_params opt_params s = (Inr x, s')"
  shows "get mi_params ''critic'' (PStr ''separable'') \<in> {PStr ''separable'', PStr ''concat''} \<and>
         get mi_params ''baseline'' (PStr ''constant'')
           \<in> {PStr ''constant'', PStr ''unnormalized'', PStr ''gaussian''}"
  using assms unfolding prepare_def
  apply (elim and_then_InrE)
  apply (drule new_critic_Inr)
  apply (drule new_baseline_Inr)
  apply (auto simp: CRITICS_def split: baseline_obj.splits if_splits)
  done

lemma unknown_critic:
  assumes "mi_params ''critic'' = Some k" "k \<notin> {PStr ''separable'', PStr ''concat''}"
  shows "train_estimator env critic_params data_params mi_params opt_params kwargs s
           = (Inl (KeyError k), s)"
  using assms
  by (simp add: train_estimator_def prepare_def get_def new_critic_apply and_then_apply
      CRITICS_def)

lemma unknown_baseline:
  assumes "mi_params ''baseline'' = Some b"
    "b \<notin> {PStr ''constant'', PStr ''unnormalized'', PStr ''gaussian''}"
    "new_critic env (get mi_params ''critic'' (PStr ''separable'')) PNone critic_params s
       = (Inr a, s1)"
  shows "train_estimator env critic_params data_params mi_params opt_params kwargs s
           = (Inl (KeyError b), s1)"
  using assms
  by (simp add: train_estimator_def prepare_def get_def and_then_apply new_baseline_def
      BASELINES_def raise_apply)

text \<open>C1, as the code has it. A critic name or a baseline name that is not a key of
  \<^verbatim>\<open>CRITICS\<close> or \<^verbatim>\<open>BASELINES\<close> makes \<^verbatim>\<open>train_estimator\<close> raise before the first training
  iteration, and is not replaced by a default. An unknown critic name raises the
  \<^verbatim>\<open>KeyError\<close> of that name, at line 79, with nothing called and nothing changed. With an
  unknown baseline name the run fails without any call of a training iteration; line 79
  comes first, so the failure is the one of the critic's construction when that raises,
  and the \<^verbatim>\<open>KeyError\<close> of the baseline's name, at line 81, when it returns. The estimator
  name is not looked at before training: it is handed, as it is, to every call of
  \<^verbatim>\<open>estimate_mutual_information\<close>.\<close>

theorem unknown_critic_or_baseline_raises_before_training:
  assumes "train_estimator env critic_params data_params mi_params opt_params kwargs s = (r, s')"
  shows "(\<forall>k. mi_params ''critic'' = Some k \<and> k \<notin> {PStr ''separable'', PStr ''concat''} \<longrightarrow>
            r = Inl (KeyError k) \<and> s' = s) \<and>
         (\<forall>b. mi_params ''baseline'' = Some b \<and>
              b \<notin> {PStr ''constant'', PStr ''unnormalized'', PStr ''gaussian''} \<longrightarrow>
            (\<exists>e. r = Inl e) \<and>
            (\<exists>new. events s' = events s @ new \<and> collect training_call new = []) \<and>
            (\<forall>a s1. new_critic env (get mi_params ''critic'' (PStr ''separable'')) PNone
                      critic_params s = (Inr a, s1) \<longrightarrow>
               r = Inl (KeyError b) \<and> s' = s1) \<and>
            (\<forall>e s1. new_critic env (get mi_params ''critic'' (PStr ''separable'')) PNone
                      critic_params s = (Inl e, s1) \<longrightarrow>
               r = Inl e \<and> s' = s1)) \<and>
         (\<exists>new. events s' = events s @ new \<and>
            set (collect estimate_name new) \<subseteq> {name. mi_params ''estimator'' = Some name})"
proof -
  have critic: "r = Inl (KeyError k) \<and> s' = s"
    if "mi_params ''critic'' = Some k \<and> k \<notin> {PStr ''separable'', PStr ''concat''}" for k
    using unknown_critic [of mi_params k env critic_params data_params opt_params kwargs s]
      assms that
    by simp
  have baseline: "(\<exists>e. r = Inl e) \<and>
            (\<exists>new. events s' = events s @ new \<and> collect training_call new = []) \<and>
            (\<forall>a s1. new_critic env (get mi_params ''critic'' (PStr ''separable'')) PNone
                      critic_params s = (Inr a, s1) \<longrightarrow>
               r = Inl (KeyError b) \<and> s' = s1) \<and>
            (\<forall>e s1. new_critic env (get mi_params ''critic'' (PStr ''separable'')) PNone
                      critic_params s = (Inl e, s1) \<longrightarrow>
               r = Inl e \<and> s' = s1)"
    if b: "mi_params ''baseline'' = Some b \<and>
           b \<notin> {PStr ''constant'', PStr ''unnormalized'', PStr ''gaussian''}" for b
  proof -
    from assms have "(\<exists>e. r = Inl e) \<and>
        (\<exists>new. events s' = events s @ new \<and> collect training_call new = [])"
    proof (cases rule: train_estimator_cases)
      case (failed e)
      from prepare_any [OF failed(1)] failed(2) show ?thesis by blast
    next
      case (trained c rhos s1)
      from prepare_Inr_keys [OF trained(1)] b show ?thesis
        by (simp add: get_def)
    qed
    moreover have "r = Inl (KeyError b) \<and> s' = s1"
      if "new_critic env (get mi_params ''critic'' (PStr ''separable'')) PNone critic_params s
            = (Inr a, s1)" for a s1
      using unknown_baseline [of mi_params b env critic_params s a s1 data_params opt_params
          kwargs] b assms that
      by simp
    moreover have "r = Inl e \<and> s' = s1"
      if "new_critic env (get mi_params ''critic'' (PStr ''separable'')) PNone critic_params s
            = (Inl e, s1)" for e s1
      using critic_failure [OF that, of data_params opt_params kwargs] assms
      by simp
    ultimately show ?thesis by blast
  qed
  have estimator: "\<exists>new. events s' = events s @ new \<and>
            set (collect estimate_name new) \<subseteq> {name. mi_params ''estimator'' = Some name}"
  proof -
    from train_estimator_any [OF assms] obtain n0 n1 c where
      "events s' = events s @ n0 @ n1" "collect training_call n0 = []"
      "list_all (training_log c mi_params) n1"
      by blast
    then show ?thesis
      by (intro exI [of _ "n0 @ n1"]) (auto simp: collect_append dest: training_log set_up_log)
  qed
  from critic have 1: "\<forall>k. mi_params ''critic'' = Some k \<and>
            k \<notin> {PStr ''separable'', PStr ''concat''} \<longrightarrow> r = Inl (KeyError k) \<and> s' = s"
    by blast
  from baseline have 2: "\<forall>b. mi_params ''baseline'' = Some b \<and>
              b \<notin> {PStr ''constant'', PStr ''unnormalized'', PStr ''gaussian''} \<longrightarrow>
            (\<exists>e. r = Inl e) \<and>
            (\<exists>new. events s' = events s @ new \<and> collect training_call new = []) \<and>
            (\<forall>a s1. new_critic env (get mi_params ''critic'' (PStr ''separable'')) PNone
                      critic_params s = (Inr a, s1) \<longrightarrow>
               r = Inl (KeyError b) \<and> s' = s1) \<and>
            (\<forall>e s1. new_critic env (get mi_params ''critic'' (PStr ''separable'')) PNone
                      critic_params s = (Inl e, s1) \<longrightarrow>
               r = Inl e \<and> s' = s1)"
    by (intro allI impI)
  from 1 2 estimator show ?thesis
    by (intro conjI)
qed

lemma run_unknown_baseline:
  "\<exists>s'. train_estimator env0 critic_params0 data_params0
          (mi_params0 ''smile'' ''separable'' ''bogus'') (opt_params0 2) Map.empty s0
          = (Inl (KeyError (PStr ''bogus'')), s') \<and>
        events s' = [NewCritic (PStr ''separable'') PNone critic_params0]"
  apply (rule exI)
  apply (rule conjI)
   apply (simp add: run_simps)
  apply simp
  done

theorem unknown_critic_or_baseline_raises_before_training_witness:
  "train_estimator env0 critic_params0 data_params0
     (mi_params0 ''smile'' ''bogus'' ''constant'') (opt_params0 2) Map.empty s0
     = (Inl (KeyError (PStr ''bogus'')), s0) \<and>
   train_estimator env0 (critic_params0(''rho'' \<mapsto> PInt 1)) data_params0
     (mi_params0 ''smile'' ''separable'' ''bogus'') (opt_params0 2) Map.empty s0
     = (Inl TypeError, s0) \<and>
   (\<exists>s'. train_estimator env0 critic_params0 data_params0
            (mi_params0 ''smile'' ''separable'' ''bogus'') (opt_params0 2) Map.empty s0
            = (Inl (KeyError (PStr ''bogus'')), s') \<and>
          (\<exists>new. events s' = events s0 @ new \<and> collect training_call new = [])) \<and>
   (\<exists>s'. train_estimator env0 critic_params0 data_params0
            (mi_params0 ''smile'' ''separable'' ''unnormalized'') (opt_params0 2) Map.empty s0
            = (Inr [10, 30], s') \<and>
          collect estimate_name (events s') = [PStr ''smile'', PStr ''smile''] \<and>
          (\<exists>new. events s' = events s0 @ new \<and>
             set (collect estimate_name new)
               \<subseteq> {name. mi_params0 ''smile'' ''separable'' ''unnormalized'' ''estimator''
                            = Some name}))"
proof (intro conjI)
  let ?run = "train_estimator env0 critic_params0 data_params0
     (mi_params0 ''smile'' ''bogus'' ''constant'') (opt_params0 2) Map.empty s0"
  have "?run = (fst ?run, snd ?run)"
    by simp
  from unknown_critic_or_baseline_raises_before_training [OF this]
  have "fst ?run = Inl (KeyError (PStr ''bogus'')) \<and> snd ?run = s0"
    by (simp add: params0_maps)
  then show "?run = (Inl (KeyError (PStr ''bogus'')), s0)"
    by (metis prod.collapse)
next
  let ?run = "train_estimator env0 (critic_params0(''rho'' \<mapsto> PInt 1)) data_params0
     (mi_params0 ''smile'' ''separable'' ''bogus'') (opt_params0 2) Map.empty s0"
  have c: "new_critic env0 (get (mi_params0 ''smile'' ''separable'' ''bogus'') ''critic''
               (PStr ''separable'')) PNone (critic_params0(''rho'' \<mapsto> PInt 1)) s0
             = (Inl TypeError, s0)"
    by (simp add: new_critic_apply CRITICS_def params0_simps)
  have "?run = (fst ?run, snd ?run)"
    by simp
  from unknown_critic_or_baseline_raises_before_training [OF this] c
  have "fst ?run = Inl TypeError \<and> snd ?run = s0"
    by (simp add: params0_maps)
  then show "?run = (Inl TypeError, s0)"
    by (metis prod.collapse)
next
  from run_unknown_baseline obtain s' where
    run: "train_estimator env0 critic_params0 data_params0
            (mi_params0 ''smile'' ''separable'' ''bogus'') (opt_params0 2) Map.empty s0
            = (Inl (KeyError (PStr ''bogus'')), s')"
    by blast
  from unknown_critic_or_baseline_raises_before_training [OF run]
  have "\<exists>new. events s' = events s0 @ new \<and> collect training_call new = []"
    by (simp add: params0_maps)
  with run show "\<exists>s'. train_estimator env0 critic_params0 data_params0
            (mi_params0 ''smile'' ''separable'' ''bogus'') (opt_params0 2) Map.empty s0
            = (Inl (KeyError (PStr ''bogus'')), s') \<and>
          (\<exists>new. events s' = events s0 @ new \<and> collect training_call new = [])"
    by blast
next
  from run_two_iterations obtain s' where
    run: "train_estimator env0 critic_params0 data_params0
            (mi_params0 ''smile'' ''separable'' ''unnormalized'') (opt_params0 2) Map.empty s0
            = (Inr [10, 30], s')"
    and log: "collect estimate_name (events s') = [PStr ''smile'', PStr ''smile'']"
    by (auto simp: collect_simps)
  from unknown_critic_or_baseline_raises_before_training [OF run] run log
  show "\<exists>s'. train_estimator env0 critic_params0 data_params0
            (mi_params0 ''smile'' ''separable'' ''unnormalized'') (opt_params0 2) Map.empty s0
            = (Inr [10, 30], s') \<and>
          collect estimate_name (events s') = [PStr ''smile'', PStr ''smile''] \<and>
          (\<exists>new. events s' = events s0 @ new \<and>
             set (collect estimate_name new)
               \<subseteq> {name. mi_params0 ''smile'' ''separable'' ''unnormalized'' ''estimator''
                            = Some name})"
    by blast
qed

text \<open>C1, as stated, fails for the estimator name. With an unknown estimator
  name and no iteration to run, \<^verbatim>\<open>train_estimator\<close> returns an empty trace; with one
  iteration, the failure is the one of \<^verbatim>\<open>estimate_mutual_information\<close>, after the step has
  drawn its sample batch.\<close>

lemma run_unknown_estimator:
  "\<exists>s'. train_estimator env0 critic_params0 data_params0
          (mi_params0 ''bogus'' ''separable'' ''constant'') (opt_params0 1) Map.empty s0
          = (Inl (Failure ''unknown estimator''), s') \<and>
        events s' =
          [NewCritic (PStr ''separable'') PNone critic_params0, NewBaseline (PStr ''constant''),
           NewAdam 0 (PVal 5), ZeroGrad 0,
           Sample (PInt 20) 5 (PInt 64) PNone (Inr (6, 4)),
           Estimate (PStr ''bogus'') 6 4 0 NoBaseline PNone ''cuda:4'' Map.empty
             (Inl (Failure ''unknown estimator''))]"
  apply (rule exI)
  apply (rule conjI)
   apply (simp add: run_simps)
  apply simp
  done

theorem unknown_estimator_counterexample:
  "fst (train_estimator env0 critic_params0 data_params0
          (mi_params0 ''bogus'' ''separable'' ''constant'') (opt_params0 0) Map.empty s0)
     = Inr [] \<and>
   fst (train_estimator env0 critic_params0 data_params0
          (mi_params0 ''bogus'' ''separable'' ''constant'') (opt_params0 1) Map.empty s0)
     = Inl (Failure ''unknown estimator'') \<and>
   collect sample_batch (events (snd (train_estimator env0 critic_params0 data_params0
          (mi_params0 ''bogus'' ''separable'' ''constant'') (opt_params0 1) Map.empty s0)))
     = [(6, 4)]"
proof (intro conjI)
  show "fst (train_estimator env0 critic_params0 data_params0
          (mi_params0 ''bogus'' ''separable'' ''constant'') (opt_params0 0) Map.empty s0)
     = Inr []"
    by (simp add: run_simps)
next
  from run_unknown_estimator
  show "fst (train_estimator env0 critic_params0 data_params0
          (mi_params0 ''bogus'' ''separable'' ''constant'') (opt_params0 1) Map.empty s0)
     = Inl (Failure ''unknown estimator'')"
    by auto
next
  from run_unknown_estimator
  show "collect sample_batch (events (snd (train_estimator env0 critic_params0 data_params0
          (mi_params0 ''bogus'' ''separable'' ''constant'') (opt_params0 1) Map.empty s0)))
     = [(6, 4)]"
    by (auto simp: collect_simps)
qed

section \<open>A configuration without a critic\<close>

lemma step_without_critic:
  assumes "wired c" "mi_params ''critic'' = None"
  shows "\<exists>s'. train_step env c kwargs rho data_params mi_params s
                = (Inl (KeyError (PStr ''critic'')), s') \<and>
              events s' = events s @ ZeroGrad (critic c) # map ZeroGrad (baseline_params (baseline c))"
  using assms
  by (cases "baseline c")
     (simp_all add: train_step_def and_then_apply zero_grad_apply succeed_apply lift_apply
        getitem_def)

lemma loop_without_critic:
  assumes w: "wired c" and m: "mi_params ''critic'' = None"
    and l: "for_loop (iteration env c kwargs rhos data_params mi_params) indices estimates s
              = (r, s')"
  shows "\<exists>new. events s' = events s @ new \<and> collect sample_rho new = [] \<and>
           (\<forall>out. r = Inr out \<longrightarrow> out = estimates)"
proof (cases indices)
  case Nil
  with l show ?thesis
    by (intro exI [of _ "[]"]) (auto simp: collect_Nil)
next
  case (Cons i rest)
  with l have "for_loop (iteration env c kwargs rhos data_params mi_params) (i # rest) estimates s
                 = (r, s')"
    by simp
  then show ?thesis
  proof (cases rule: for_loop_cases)
    case (failed e)
    from failed(1) show ?thesis unfolding iteration_def
    proof (cases rule: and_then_cases)
      case (failed e')
      with \<open>r = Inl e\<close> show ?thesis
        by (auto simp: lift_apply collect_Nil)
    next
      case (continued rho s1)
      then have s1: "s1 = s"
        by (simp add: lift_apply)
      from step_without_critic [where mi_params = mi_params, OF w m, of env kwargs rho data_params s] continued(2) s1
      have "events s' = events s @ ZeroGrad (critic c) # map ZeroGrad (baseline_params (baseline c))"
        by (auto simp: and_then_apply)
      with \<open>r = Inl e\<close> show ?thesis
        by (cases "baseline c") (auto simp: collect_simps)
    qed
  next
    case (continued mi s1)
    from iteration_Inr [OF continued(1)] step_without_critic [where mi_params = mi_params, OF w m, of env kwargs "rhos ! i" data_params s]
    show ?thesis by auto
  qed
qed

text \<open>C9, as the code has it. When \<^verbatim>\<open>mi_params\<close> has no \<^verbatim>\<open>'critic'\<close> key, the critic that
  the set-up builds is the separable one, and no call of \<^verbatim>\<open>train_estimator\<close> draws a
  sample or returns an estimate: a trace it returns is empty. When the set-up (lines 79
  to 119) returns and the iteration count is an integer \<open>n\<close>: for \<open>n\<close> at least 1 and a
  schedule that has a first correlation, the first iteration raises \<^verbatim>\<open>KeyError('critic')\<close>
  at the lookup in \<^verbatim>\<open>train_step\<close>, right after the gradients were zeroed, and that is the
  outcome of the call; for \<open>n\<close> at most 0, the call returns the empty trace, in the state
  that the set-up left.\<close>

theorem missing_critic_key_raises_in_first_iteration:
  assumes "mi_params ''critic'' = None"
  shows "(train_estimator env critic_params data_params mi_params opt_params kwargs s = (r, s') \<longrightarrow>
            (\<exists>new. events s' = events s @ new \<and>
               (collect critic_key new = [] \<or> collect critic_key new = [PStr ''separable'']) \<and>
               collect sample_rho new = [] \<and> (\<forall>est. r = Inr est \<longrightarrow> est = []))) \<and>
         (prepare env critic_params data_params mi_params opt_params s = (Inr (c, rhos), s1) \<longrightarrow>
          opt_params ''iterations'' = Some (PInt n) \<longrightarrow> 0 < n \<longrightarrow> rhos \<noteq> [] \<longrightarrow>
            (\<exists>s2. train_estimator env critic_params data_params mi_params opt_params kwargs s
                     = (Inl (KeyError (PStr ''critic'')), s2) \<and>
                   events s2 = events s1 @
                     ZeroGrad (critic c) # map ZeroGrad (baseline_params (baseline c)))) \<and>
         (prepare env critic_params data_params mi_params opt_params s = (Inr (c, rhos), s1) \<longrightarrow>
          opt_params ''iterations'' = Some (PInt n) \<longrightarrow> n \<le> 0 \<longrightarrow>
            train_estimator env critic_params data_params mi_params opt_params kwargs s
              = (Inr [], s1))"
proof (intro conjI impI)
  assume run: "train_estimator env critic_params data_params mi_params opt_params kwargs s = (r, s')"
  from assms have d: "get mi_params ''critic'' (PStr ''separable'') = PStr ''separable''"
    by (simp add: get_def)
  from run show "\<exists>new. events s' = events s @ new \<and>
               (collect critic_key new = [] \<or> collect critic_key new = [PStr ''separable'']) \<and>
               collect sample_rho new = [] \<and> (\<forall>est. r = Inr est \<longrightarrow> est = [])"
  proof (cases rule: train_estimator_cases)
    case (failed e)
    from prepare_any [OF failed(1)] obtain n0 where
      "events s' = events s @ n0" "collect training_call n0 = []"
      "collect critic_key n0 = [] \<or> collect critic_key n0 = [PStr ''separable'']"
      unfolding d by blast
    with failed(2) show ?thesis
      by (auto dest: set_up_log)
  next
    case (trained c rhos s1)
    from prepare_Inr [OF trained(1)] have w: "wired c"
      by simp
    from prepare_any [OF trained(1)] obtain n0 where
      n0: "events s1 = events s @ n0" "collect training_call n0 = []"
        "collect critic_key n0 = [] \<or> collect critic_key n0 = [PStr ''separable'']"
      unfolding d by blast
    from appendsD [OF appends_training_log [OF w] trained(2)] obtain n1 where
      n1: "events s' = events s1 @ n1" "list_all (training_log c mi_params) n1"
      by blast
    from trained(2) have "\<exists>new. events s' = events s1 @ new \<and> collect sample_rho new = [] \<and>
        (\<forall>out. r = Inr out \<longrightarrow> out = [])"
      unfolding training_unfold
    proof (cases rule: and_then_cases)
      case (failed e)
      then show ?thesis
        by (intro exI [of _ "[]"]) (auto simp: collect_Nil dest!: lift_any)
    next
      case (continued v s2)
      from continued(2) show ?thesis
      proof (cases rule: and_then_cases)
        case (failed e)
        with continued(1) show ?thesis
          by (intro exI [of _ "[]"]) (auto simp: collect_Nil dest!: lift_any)
      next
        case (continued indices s3)
        from loop_without_critic [OF w assms continued(2)] continued(1)
          \<open>lift (getitem opt_params ''iterations'') s1 = (Inr v, s2)\<close>
        show ?thesis
          by (auto dest!: lift_any)
      qed
    qed
    with n0 n1 show ?thesis
      by (auto simp: collect_append dest: set_up_log training_log)
  qed
next
  assume p: "prepare env critic_params data_params mi_params opt_params s = (Inr (c, rhos), s1)"
    and it: "opt_params ''iterations'' = Some (PInt n)" and n: "0 < n" and r: "rhos \<noteq> []"
  from prepare_Inr [OF p] have w: "wired c"
    by simp
  from step_without_critic [where mi_params = mi_params, OF w assms, of env kwargs "rhos ! 0" data_params s1] obtain s2 where
    st: "train_step env c kwargs (rhos ! 0) data_params mi_params s1
           = (Inl (KeyError (PStr ''critic'')), s2)"
    and ev: "events s2 = events s1 @ ZeroGrad (critic c) # map ZeroGrad (baseline_params (baseline c))"
    by blast
  from r st have "iteration env c kwargs rhos data_params mi_params 0 s1
                    = (Inl (KeyError (PStr ''critic'')), s2)"
    by (simp add: iteration_def and_then_apply lift_apply index_def)
  with it n have "training env c kwargs rhos data_params mi_params opt_params s1
                    = (Inl (KeyError (PStr ''critic'')), s2)"
    by (simp add: training_unfold and_then_apply lift_apply getitem_def upt_conv_Cons)
  with p have "train_estimator env critic_params data_params mi_params opt_params kwargs s
                 = (Inl (KeyError (PStr ''critic'')), s2)"
    by (simp add: train_estimator_def and_then_apply)
  with ev show "\<exists>s2. train_estimator env critic_params data_params mi_params opt_params kwargs s
                     = (Inl (KeyError (PStr ''critic'')), s2) \<and>
                   events s2 = events s1 @
                     ZeroGrad (critic c) # map ZeroGrad (baseline_params (baseline c))"
    by blast
next
  assume p: "prepare env critic_params data_params mi_params opt_params s = (Inr (c, rhos), s1)"
    and it: "opt_params ''iterations'' = Some (PInt n)" and n: "n \<le> 0"
  from n have "training env c kwargs rhos data_params mi_params opt_params s1 = (Inr [], s1)"
    by (simp add: training_eq [where opt_params = opt_params, OF it])
  with p show "train_estimator env critic_params data_params mi_params opt_params kwargs s
                 = (Inr [], s1)"
    by (simp add: train_estimator_def and_then_apply)
qed

lemma no_critic_simps:
  "mi_params_no_critic ''critic'' = None"
  "getitem mi_params_no_critic ''critic'' = Inl (KeyError (PStr ''critic''))"
  "getitem mi_params_no_critic ''estimator'' = Inr (PStr ''smile'')"
  "get mi_params_no_critic ''critic'' dflt = dflt"
  "get mi_params_no_critic ''baseline'' dflt = PStr ''unnormalized''"
  "get mi_params_no_critic ''alpha_logit'' dflt = dflt"
  by (simp_all add: mi_params_no_critic_def getitem_def get_def)

lemma prepare_without_critic:
  "\<exists>s1. prepare env0 critic_params0 data_params0 mi_params_no_critic (opt_params0 1) s0
          = (Inr (\<lparr>critic = 0, baseline = Module 1, opt_crit = Adam 0, opt_base = Some (Adam 1)\<rparr>,
                  [5]), s1) \<and>
        events s1 =
          [NewCritic (PStr ''separable'') PNone critic_params0,
           NewBaseline (PStr ''unnormalized''), NewAdam 0 (PVal 5), NewAdam 1 (PVal 5)]"
  apply (rule exI)
  apply (rule conjI)
   apply (simp add: run_simps no_critic_simps)
  apply simp
  done

lemma set_up_without_critic:
  "\<exists>s1. prepare env0 critic_params0 data_params0 mi_params_no_critic (opt_params0 0) s0
          = (Inr (\<lparr>critic = 0, baseline = Module 1, opt_crit = Adam 0, opt_base = Some (Adam 1)\<rparr>,
                  []), s1)"
  apply (rule exI)
  apply (simp add: run_simps no_critic_simps)
  done

theorem missing_critic_key_raises_in_first_iteration_witness:
  "mi_params_no_critic ''critic'' = None \<and> opt_params0 1 ''iterations'' = Some (PInt 1) \<and>
   (\<exists>s2. train_estimator env0 critic_params0 data_params0 mi_params_no_critic (opt_params0 1)
            Map.empty s0
            = (Inl (KeyError (PStr ''critic'')), s2) \<and>
          events s2 =
            [NewCritic (PStr ''separable'') PNone critic_params0,
             NewBaseline (PStr ''unnormalized''), NewAdam 0 (PVal 5), NewAdam 1 (PVal 5),
             ZeroGrad 0, ZeroGrad 1] \<and>
          (\<exists>new. events s2 = events s0 @ new \<and> collect critic_key new = [PStr ''separable''] \<and>
             collect sample_rho new = [])) \<and>
   opt_params0 0 ''iterations'' = Some (PInt 0) \<and>
   (\<exists>s1. train_estimator env0 critic_params0 data_params0 mi_params_no_critic (opt_params0 0)
            Map.empty s0 = (Inr [], s1))"
proof -
  from set_up_without_critic obtain s3 where
    p0: "prepare env0 critic_params0 data_params0 mi_params_no_critic (opt_params0 0) s0
          = (Inr (\<lparr>critic = 0, baseline = Module 1, opt_crit = Adam 0, opt_base = Some (Adam 1)\<rparr>,
                  []), s3)"
    by blast
  from missing_critic_key_raises_in_first_iteration
    [where mi_params = mi_params_no_critic and env = env0 and critic_params = critic_params0 and
      data_params = data_params0 and opt_params = "opt_params0 0" and kwargs = Map.empty and
      s = s0 and n = 0 and ?s1.0 = s3 and rhos = "[]" and
      c = "\<lparr>critic = 0, baseline = Module 1, opt_crit = Adam 0, opt_base = Some (Adam 1)\<rparr>",
      OF no_critic_simps(1), THEN conjunct2, THEN conjunct2] p0
  have run0: "train_estimator env0 critic_params0 data_params0 mi_params_no_critic (opt_params0 0)
            Map.empty s0 = (Inr [], s3)"
    by (simp add: params0_maps)
  from prepare_without_critic obtain s1 where
    p: "prepare env0 critic_params0 data_params0 mi_params_no_critic (opt_params0 1) s0
          = (Inr (\<lparr>critic = 0, baseline = Module 1, opt_crit = Adam 0, opt_base = Some (Adam 1)\<rparr>,
                  [5]), s1)"
    and e1: "events s1 =
          [NewCritic (PStr ''separable'') PNone critic_params0,
           NewBaseline (PStr ''unnormalized''), NewAdam 0 (PVal 5), NewAdam 1 (PVal 5)]"
    by blast
  note t = missing_critic_key_raises_in_first_iteration
    [where mi_params = mi_params_no_critic and env = env0 and critic_params = critic_params0 and
      data_params = data_params0 and opt_params = "opt_params0 1" and kwargs = Map.empty and
      s = s0 and n = 1 and ?s1.0 = s1 and rhos = "[5]" and
      c = "\<lparr>critic = 0, baseline = Module 1, opt_crit = Adam 0, opt_base = Some (Adam 1)\<rparr>",
      OF no_critic_simps(1)]
  from t [THEN conjunct2, THEN conjunct1] p have "\<exists>s2. train_estimator env0 critic_params0 data_params0
      mi_params_no_critic (opt_params0 1) Map.empty s0 = (Inl (KeyError (PStr ''critic'')), s2) \<and>
      events s2 = events s1 @ [ZeroGrad 0, ZeroGrad 1]"
    by (simp add: params0_maps)
  then obtain s2 where
    run: "train_estimator env0 critic_params0 data_params0 mi_params_no_critic (opt_params0 1)
            Map.empty s0 = (Inl (KeyError (PStr ''critic'')), s2)"
    and e2: "events s2 = events s1 @ [ZeroGrad 0, ZeroGrad 1]"
    by blast
  from t run have "\<exists>new. events s2 = events s0 @ new \<and>
      (collect critic_key new = [] \<or> collect critic_key new = [PStr ''separable'']) \<and>
      collect sample_rho new = []"
    by blast
  with e1 e2 have "\<exists>new. events s2 = events s0 @ new \<and> collect critic_key new = [PStr ''separable''] \<and>
             collect sample_rho new = []"
    by (auto simp: s0_def collect_simps)
  with run run0 e1 e2 show ?thesis
    by (auto simp: no_critic_simps params0_maps)
qed

text \<open>C9, as stated, fails when there is no iteration to run: the call returns an empty
  trace.\<close>

theorem missing_critic_key_counterexample:
  "mi_params_no_critic ''critic'' = None \<and>
   fst (train_estimator env0 critic_params0 data_params0 mi_params_no_critic (opt_params0 0)
          Map.empty s0) = Inr []"
  by (simp add: run_simps no_critic_simps)

section \<open>The conditional configuration\<close>

text \<open>C2. The code's own comment says that for the conditional critic "we rebuild the
  critic at each iteration"; it cannot. With \<^verbatim>\<open>critic='conditional'\<close> the run raises
  \<^verbatim>\<open>KeyError('conditional')\<close> at line 79, before any iteration. With the estimator
  \<^verbatim>\<open>'conditional'\<close> and a critic that \<^verbatim>\<open>CRITICS\<close> knows, the one critic of the set-up,
  built with \<^verbatim>\<open>rho=None\<close>, serves both iterations, whose correlations are 5 and 15.\<close>

theorem conditional_configuration_rebuilds_no_critic:
  "train_estimator env0 critic_params0 data_params0
     (mi_params0 ''conditional'' ''conditional'' ''constant'') (opt_params0 2) Map.empty s0
     = (Inl (KeyError (PStr ''conditional'')), s0) \<and>
   (\<exists>s'. train_estimator env0 critic_params0 data_params0
            (mi_params0 ''conditional'' ''separable'' ''constant'') (opt_params0 2) Map.empty s0
            = (Inr [10, 30], s') \<and>
          collect critic_rho (events s') = [PNone] \<and>
          collect sample_rho (events s') = [5, 15] \<and>
          collect estimate_critic (events s') = [0, 0])"
  apply (rule conjI)
   apply (simp add: run_simps)
  apply (rule exI)
  apply (rule conjI)
   apply (simp add: run_simps)
  apply (simp add: collect_simps)
  done

section \<open>The data flow of an iteration\<close>

text \<open>C4. For the iteration count \<open>n\<close>, the schedule \<open>rhos\<close> is
  \<^verbatim>\<open>mi_to_rho(data_params['dim'], mi_schedule(n))\<close>, computed once by the set-up. In every
  run, the correlations handed to the sampler are, in order, the first elements of
  \<open>rhos\<close>: iteration \<open>i\<close> samples with \<open>rhos[i]\<close>. In a run that returns its trace \<open>est\<close>,
  there are \<open>n\<close> of them, one sampling call each; the batch that the estimator gets in an
  iteration is the batch that the sampler returned in it; the loss that is differentiated
  is the negation of the estimate; and the trace holds the detached estimates, in order.\<close>

theorem iteration_data_flow:
  assumes "train_estimator env critic_params data_params mi_params opt_params kwargs s = (r, s')"
    and "opt_params ''iterations'' = Some (PInt n)"
  shows "\<exists>new. events s' = events s @ new \<and>
           (collect sample_rho new = [] \<or>
            (\<exists>mis d rhos k.
               mi_schedule env (PInt n) = Inr mis \<and> data_params ''dim'' = Some d \<and>
               mi_to_rho env d mis = Inr rhos \<and> k \<le> nat n \<and> k \<le> length rhos \<and>
               collect sample_rho new = take k rhos)) \<and>
           (\<forall>est. r = Inr est \<longrightarrow>
              (\<exists>mis d rhos.
                 mi_schedule env (PInt n) = Inr mis \<and> data_params ''dim'' = Some d \<and>
                 mi_to_rho env d mis = Inr rhos \<and> nat n \<le> length rhos \<and>
                 collect sample_rho new = take (nat n) rhos \<and>
                 length (collect sample_batch new) = nat n \<and>
                 collect estimate_batch new = collect sample_batch new \<and>
                 map Inr (collect backward_loss new)
                   = map (negate env) (collect estimate_result new) \<and>
                 map Inr est = map (detach_cpu_numpy env) (collect estimate_result new)))"
  using assms(1)
proof (cases rule: train_estimator_cases)
  case (failed e)
  from prepare_any [OF failed(1)] obtain n0 where
    "events s' = events s @ n0" "collect training_call n0 = []"
    by blast
  with failed(2) show ?thesis
    by (intro exI [of _ n0]) (auto dest: set_up_log)
next
  case (trained c rhos s1)
  from prepare_Inr [OF trained(1)] assms(2) obtain mis d where
    w: "wired c" and
    sched: "mi_schedule env (PInt n) = Inr mis" "data_params ''dim'' = Some d"
      "mi_to_rho env d mis = Inr rhos"
    by auto
  from prepare_any [OF trained(1)] obtain n0 where
    n0: "events s1 = events s @ n0" "collect training_call n0 = []"
    by blast
  from trained(2) have loop:
    "for_loop (iteration env c kwargs rhos data_params mi_params) [0..<nat n] [] s1 = (r, s')"
    by (simp add: training_eq [where opt_params = opt_params, OF assms(2)])
  from loop_any [OF w loop] obtain n1 k where
    n1: "events s' = events s1 @ n1" "k \<le> nat n"
      "list_all (\<lambda>i. i < length rhos) (take k [0..<nat n])"
      "collect sample_rho n1 = map ((!) rhos) (take k [0..<nat n])"
    by auto
  from n1(2) have "take k [0..<nat n] = [0..<k]"
    by (simp add: take_upt)
  with n1(3,4) map_nth_upt [of rhos k] have prefix:
    "collect sample_rho n1 = take k rhos" "k \<le> length rhos"
    by simp_all
  have flow: "nat n \<le> length rhos \<and> collect sample_rho n1 = take (nat n) rhos \<and>
      length (collect sample_batch n1) = nat n \<and>
      collect estimate_batch n1 = collect sample_batch n1 \<and>
      map Inr (collect backward_loss n1) = map (negate env) (collect estimate_result n1) \<and>
      map Inr est = map (detach_cpu_numpy env) (collect estimate_result n1)"
    if "r = Inr est" for est
  proof -
    from loop that have l: "for_loop (iteration env c kwargs rhos data_params mi_params)
        [0..<nat n] [] s1 = (Inr est, s')"
      by simp
    from loop_Inr [OF w l] n1(1) have
      a: "list_all (\<lambda>i. i < length rhos) [0..<nat n]"
        "collect sample_rho n1 = map ((!) rhos) [0..<nat n]"
        "length (collect sample_batch n1) = nat n"
        "collect sample_batch n1 = collect estimate_batch n1"
        "map (negate env) (collect estimate_result n1) = map Inr (collect backward_loss n1)"
        "map (detach_cpu_numpy env) (collect estimate_result n1) = map Inr est"
      by auto
    from map_nth_upt [OF a(1)] a show ?thesis
      by simp
  qed
  show ?thesis
    apply (rule exI [of _ "n0 @ n1"])
    using sched n0 n1(1) prefix n1(2) flow set_up_log [OF n0(2)]
    apply (simp add: collect_append)
    apply blast
    done
qed

theorem iteration_data_flow_witness:
  "opt_params0 2 ''iterations'' = Some (PInt 2) \<and>
   mi_schedule env0 (PInt 2) = Inr 2 \<and> mi_to_rho env0 (PInt 20) 2 = Inr [5, 15] \<and>
   (\<exists>s'. train_estimator env0 critic_params0 data_params0
            (mi_params0 ''smile'' ''separable'' ''unnormalized'') (opt_params0 2) Map.empty s0
            = (Inr [10, 30], s') \<and>
          collect sample_rho (events s') = [5, 15] \<and>
          collect sample_batch (events s') = [(7, 3), (18, 12)] \<and>
          collect estimate_batch (events s') = [(7, 3), (18, 12)] \<and>
          collect estimate_result (events s') = [10, 30] \<and>
          collect backward_loss (events s') = [- 10, - 30] \<and>
          (\<exists>new mis d rhos.
             events s' = events s0 @ new \<and>
             mi_schedule env0 (PInt 2) = Inr mis \<and> data_params0 ''dim'' = Some d \<and>
             mi_to_rho env0 d mis = Inr rhos \<and> nat 2 \<le> length rhos \<and>
             collect sample_rho new = take (nat 2) rhos \<and>
             length (collect sample_batch new) = nat 2 \<and>
             collect estimate_batch new = collect sample_batch new \<and>
             map Inr (collect backward_loss new)
               = map (negate env0) (collect estimate_result new) \<and>
             map Inr [10, 30] = map (detach_cpu_numpy env0) (collect estimate_result new)))"
proof -
  from run_two_iterations obtain s' where
    run: "train_estimator env0 critic_params0 data_params0
            (mi_params0 ''smile'' ''separable'' ''unnormalized'') (opt_params0 2) Map.empty s0
            = (Inr [10, 30], s')"
    and log: "collect sample_rho (events s') = [5, 15]"
      "collect sample_batch (events s') = [(7, 3), (18, 12)]"
      "collect estimate_batch (events s') = [(7, 3), (18, 12)]"
      "collect estimate_result (events s') = [10, 30]"
      "collect backward_loss (events s') = [- 10, - 30]"
    by (auto simp: collect_simps)
  have it: "opt_params0 2 ''iterations'' = Some (PInt 2)"
    by (simp add: params0_maps)
  have sched: "mi_schedule env0 (PInt 2) = Inr 2" "mi_to_rho env0 (PInt 20) 2 = Inr [5, 15]"
    by (simp_all add: env0_simps upt_conv_Cons)
  from iteration_data_flow [OF run it]
  have "\<exists>new mis d rhos.
             events s' = events s0 @ new \<and>
             mi_schedule env0 (PInt 2) = Inr mis \<and> data_params0 ''dim'' = Some d \<and>
             mi_to_rho env0 d mis = Inr rhos \<and> nat 2 \<le> length rhos \<and>
             collect sample_rho new = take (nat 2) rhos \<and>
             length (collect sample_batch new) = nat 2 \<and>
             collect estimate_batch new = collect sample_batch new \<and>
             map Inr (collect backward_loss new)
               = map (negate env0) (collect estimate_result new) \<and>
             map Inr [10, 30] = map (detach_cpu_numpy env0) (collect estimate_result new)"
    by blast
  with run log it sched show ?thesis
    by blast
qed

section \<open>The trace and the number of iterations\<close>

lemma upt_split:
  assumes "i < k"
  shows "[0..<k] = [0..<i] @ i # [Suc i..<k]"
proof -
  from assms have "[0..<k] = [0..<i + (k - i)]"
    by simp
  also have "\<dots> = [0..<i] @ [i..<i + (k - i)]"
    by (rule upt_add_eq_append) simp
  also from assms have "[i..<i + (k - i)] = i # [Suc i..<k]"
    by (simp add: upt_conv_Cons)
  finally show ?thesis .
qed

text \<open>C5. The array that \<^verbatim>\<open>train_estimator\<close> returns has one estimate for each of the
  \<open>n\<close> iterations, in order (\<^verbatim>\<open>range(n)\<close> is empty for \<open>n \<le> 0\<close>): the run has made \<open>n\<close>
  estimation calls, all of which returned, and item \<open>i\<close> of the array is the detached
  value of the estimate that call \<open>i\<close> returned. An iteration that fails is not skipped:
  if the iterations before \<open>i\<close> have run and iteration \<open>i\<close> raises \<open>e\<close>, the call raises
  \<open>e\<close>, in the state that the failure left.\<close>

theorem trace_has_one_estimate_per_iteration:
  "(train_estimator env critic_params data_params mi_params opt_params kwargs s = (Inr est, s') \<longrightarrow>
    opt_params ''iterations'' = Some (PInt n) \<longrightarrow>
      length est = nat n \<and> (0 \<le> n \<longrightarrow> int (length est) = n) \<and>
      (\<exists>new. events s' = events s @ new \<and>
         length (collect estimate_name new) = nat n \<and>
         length (collect estimate_result new) = nat n \<and>
         map (detach_cpu_numpy env) (collect estimate_result new) = map Inr est \<and>
         (\<forall>i<nat n. detach_cpu_numpy env (collect estimate_result new ! i) = Inr (est ! i)))) \<and>
   (prepare env critic_params data_params mi_params opt_params s = (Inr (c, rhos), s1) \<longrightarrow>
    opt_params ''iterations'' = Some (PInt n) \<longrightarrow> i < nat n \<longrightarrow>
    for_loop (iteration env c kwargs rhos data_params mi_params) [0..<i] [] s1 = (Inr before, s2) \<longrightarrow>
    iteration env c kwargs rhos data_params mi_params i s2 = (Inl e, s3) \<longrightarrow>
      train_estimator env critic_params data_params mi_params opt_params kwargs s = (Inl e, s3))"
proof (rule conjI)
  show "train_estimator env critic_params data_params mi_params opt_params kwargs s = (Inr est, s') \<longrightarrow>
    opt_params ''iterations'' = Some (PInt n) \<longrightarrow>
      length est = nat n \<and> (0 \<le> n \<longrightarrow> int (length est) = n) \<and>
      (\<exists>new. events s' = events s @ new \<and>
         length (collect estimate_name new) = nat n \<and>
         length (collect estimate_result new) = nat n \<and>
         map (detach_cpu_numpy env) (collect estimate_result new) = map Inr est \<and>
         (\<forall>i<nat n. detach_cpu_numpy env (collect estimate_result new ! i) = Inr (est ! i)))"
  proof (intro impI)
    assume run: "train_estimator env critic_params data_params mi_params opt_params kwargs s
                   = (Inr est, s')"
      and it: "opt_params ''iterations'' = Some (PInt n)"
    from returned_run [OF run it] obtain c rhos s1 n0 n1 where
      p: "prepare env critic_params data_params mi_params opt_params s = (Inr (c, rhos), s1)"
      and n0: "events s1 = events s @ n0" "collect training_call n0 = []"
      and n1: "events s' = events s1 @ n1"
        "length (collect sample_batch n1) = nat n"
        "collect sample_batch n1 = collect estimate_batch n1"
        "map (detach_cpu_numpy env) (collect estimate_result n1) = map Inr est"
      by blast
    from run p have "training env c kwargs rhos data_params mi_params opt_params s1 = (Inr est, s')"
      by (simp add: train_estimator_def and_then_apply)
    from for_loop_length [OF training_Inr [OF this it]] have len: "length est = nat n"
      by simp
    from set_up_log [OF n0(2)] have
      e0: "collect estimate_name n0 = []" "collect estimate_result n0 = []"
      by simp_all
    from n1(2,3) have calls: "length (collect estimate_name n1) = nat n"
      by (simp add: length_collect_estimate)
    from n1(4) have "length (map (detach_cpu_numpy env) (collect estimate_result n1))
        = length (map Inr est :: ('a error + 'a) list)"
      by simp
    with len have results: "length (collect estimate_result n1) = nat n"
      by simp
    have items: "detach_cpu_numpy env (collect estimate_result n1 ! i) = Inr (est ! i)"
      if "i < nat n" for i
    proof -
      from that results have "detach_cpu_numpy env (collect estimate_result n1 ! i)
          = map (detach_cpu_numpy env) (collect estimate_result n1) ! i"
        by simp
      also have "\<dots> = map Inr est ! i"
        by (simp only: n1(4))
      also from that len have "\<dots> = Inr (est ! i)"
        by simp
      finally show ?thesis .
    qed
    from n0(1) n1(1) e0 calls results n1(4) items
    have "\<exists>new. events s' = events s @ new \<and>
         length (collect estimate_name new) = nat n \<and>
         length (collect estimate_result new) = nat n \<and>
         map (detach_cpu_numpy env) (collect estimate_result new) = map Inr est \<and>
         (\<forall>i<nat n. detach_cpu_numpy env (collect estimate_result new ! i) = Inr (est ! i))"
      by (intro exI [of _ "n0 @ n1"]) (simp add: collect_append)
    with len show "length est = nat n \<and> (0 \<le> n \<longrightarrow> int (length est) = n) \<and>
      (\<exists>new. events s' = events s @ new \<and>
         length (collect estimate_name new) = nat n \<and>
         length (collect estimate_result new) = nat n \<and>
         map (detach_cpu_numpy env) (collect estimate_result new) = map Inr est \<and>
         (\<forall>i<nat n. detach_cpu_numpy env (collect estimate_result new ! i) = Inr (est ! i)))"
      by simp
  qed
next
  show "prepare env critic_params data_params mi_params opt_params s = (Inr (c, rhos), s1) \<longrightarrow>
    opt_params ''iterations'' = Some (PInt n) \<longrightarrow> i < nat n \<longrightarrow>
    for_loop (iteration env c kwargs rhos data_params mi_params) [0..<i] [] s1 = (Inr before, s2) \<longrightarrow>
    iteration env c kwargs rhos data_params mi_params i s2 = (Inl e, s3) \<longrightarrow>
      train_estimator env critic_params data_params mi_params opt_params kwargs s = (Inl e, s3)"
  proof (intro impI)
    assume p: "prepare env critic_params data_params mi_params opt_params s = (Inr (c, rhos), s1)"
      and it: "opt_params ''iterations'' = Some (PInt n)" and i: "i < nat n"
      and before: "for_loop (iteration env c kwargs rhos data_params mi_params) [0..<i] [] s1
                     = (Inr before, s2)"
      and fails: "iteration env c kwargs rhos data_params mi_params i s2 = (Inl e, s3)"
    from i have "[0..<nat n] = [0..<i] @ i # [Suc i..<nat n]"
      by (rule upt_split)
    with for_loop_abort [OF before fails, of "[Suc i..<nat n]"]
    have "for_loop (iteration env c kwargs rhos data_params mi_params) [0..<nat n] [] s1
            = (Inl e, s3)"
      by simp
    then have "training env c kwargs rhos data_params mi_params opt_params s1 = (Inl e, s3)"
      by (simp add: training_eq [where opt_params = opt_params, OF it])
    with p show "train_estimator env critic_params data_params mi_params opt_params kwargs s
                   = (Inl e, s3)"
      by (simp add: train_estimator_def and_then_apply)
  qed
qed

text \<open>Three iterations of the notebook's configuration: the third correlation, 25, is out
  of the sampler's range.\<close>

lemma run_fails_in_third_iteration:
  "\<exists>s1 s2 s3.
     prepare env0 critic_params0 data_params0 (mi_params0 ''smile'' ''separable'' ''unnormalized'')
       (opt_params0 3) s0
       = (Inr (\<lparr>critic = 0, baseline = Module 1, opt_crit = Adam 0, opt_base = Some (Adam 1)\<rparr>,
               [5, 15, 25]), s1) \<and>
     for_loop (iteration env0
         \<lparr>critic = 0, baseline = Module 1, opt_crit = Adam 0, opt_base = Some (Adam 1)\<rparr>
         Map.empty [5, 15, 25] data_params0 (mi_params0 ''smile'' ''separable'' ''unnormalized''))
       [0..<2] [] s1 = (Inr [10, 30], s2) \<and>
     iteration env0 \<lparr>critic = 0, baseline = Module 1, opt_crit = Adam 0, opt_base = Some (Adam 1)\<rparr>
         Map.empty [5, 15, 25] data_params0 (mi_params0 ''smile'' ''separable'' ''unnormalized'')
         2 s2 = (Inl (Failure ''correlation out of range''), s3) \<and>
     collect sample_rho (events s3) = [5, 15, 25]"
  apply (rule exI)+
  apply (intro conjI)
     apply (simp add: run_simps)
    apply (simp add: run_simps)
   apply (simp add: run_simps)
  apply (simp add: collect_simps)
  done

theorem trace_has_one_estimate_per_iteration_witness:
  "(\<exists>s'. train_estimator env0 critic_params0 data_params0
            (mi_params0 ''smile'' ''separable'' ''unnormalized'') (opt_params0 2) Map.empty s0
            = (Inr [10, 30], s') \<and>
          collect estimate_result (events s') = [10, 30] \<and>
          (\<exists>new. events s' = events s0 @ new \<and>
             length (collect estimate_name new) = nat 2 \<and>
             map (detach_cpu_numpy env0) (collect estimate_result new) = map Inr [10, 30])) \<and>
   opt_params0 2 ''iterations'' = Some (PInt 2) \<and> length [10, 30 :: int] = nat 2 \<and>
   opt_params0 3 ''iterations'' = Some (PInt 3) \<and> (2 :: nat) < nat 3 \<and>
   (\<exists>s3. train_estimator env0 critic_params0 data_params0
            (mi_params0 ''smile'' ''separable'' ''unnormalized'') (opt_params0 3) Map.empty s0
            = (Inl (Failure ''correlation out of range''), s3) \<and>
          collect sample_rho (events s3) = [5, 15, 25])"
proof -
  from run_two_iterations obtain s' where
    run: "train_estimator env0 critic_params0 data_params0
            (mi_params0 ''smile'' ''separable'' ''unnormalized'') (opt_params0 2) Map.empty s0
            = (Inr [10, 30], s')"
    and log: "collect estimate_result (events s') = [10, 30]"
    by (auto simp: collect_simps)
  have it2: "opt_params0 2 ''iterations'' = Some (PInt 2)"
    and it3: "opt_params0 3 ''iterations'' = Some (PInt 3)"
    by (simp_all add: params0_maps)
  from trace_has_one_estimate_per_iteration
    [where env = env0 and critic_params = critic_params0 and data_params = data_params0 and
      mi_params = "mi_params0 ''smile'' ''separable'' ''unnormalized''" and
      opt_params = "opt_params0 2" and kwargs = Map.empty and s = s0 and n = 2]
    run it2
  have len: "length [10, 30 :: int] = nat 2"
    and flow: "\<exists>new. events s' = events s0 @ new \<and>
             length (collect estimate_name new) = nat 2 \<and>
             map (detach_cpu_numpy env0) (collect estimate_result new) = map Inr [10, 30]"
    by blast+
  from run_fails_in_third_iteration obtain s1 s2 s3 where
    parts: "prepare env0 critic_params0 data_params0
       (mi_params0 ''smile'' ''separable'' ''unnormalized'') (opt_params0 3) s0
       = (Inr (\<lparr>critic = 0, baseline = Module 1, opt_crit = Adam 0, opt_base = Some (Adam 1)\<rparr>,
               [5, 15, 25]), s1)"
     "for_loop (iteration env0
         \<lparr>critic = 0, baseline = Module 1, opt_crit = Adam 0, opt_base = Some (Adam 1)\<rparr>
         Map.empty [5, 15, 25] data_params0 (mi_params0 ''smile'' ''separable'' ''unnormalized''))
       [0..<2] [] s1 = (Inr [10, 30], s2)"
     "iteration env0 \<lparr>critic = 0, baseline = Module 1, opt_crit = Adam 0, opt_base = Some (Adam 1)\<rparr>
         Map.empty [5, 15, 25] data_params0 (mi_params0 ''smile'' ''separable'' ''unnormalized'')
         2 s2 = (Inl (Failure ''correlation out of range''), s3)"
     "collect sample_rho (events s3) = [5, 15, 25]"
    by blast
  have i: "(2 :: nat) < nat 3"
    by simp
  from trace_has_one_estimate_per_iteration
    [where env = env0 and critic_params = critic_params0 and data_params = data_params0 and
      mi_params = "mi_params0 ''smile'' ''separable'' ''unnormalized''" and
      opt_params = "opt_params0 3" and kwargs = Map.empty and s = s0 and n = 3 and i = 2,
      THEN conjunct2, rule_format, OF parts(1) it3 i parts(2) parts(3)]
  have "train_estimator env0 critic_params0 data_params0
            (mi_params0 ''smile'' ''separable'' ''unnormalized'') (opt_params0 3) Map.empty s0
            = (Inl (Failure ''correlation out of range''), s3)" .
  with run log it2 it3 len flow i parts(4) show ?thesis
    by blast
qed

text \<open>C6. The loop is a recursion over \<^verbatim>\<open>range(n)\<close>, so it ends, and nothing but the
  counter decides how often its body runs. In every run, for every outcome of the external
  calls, the sampler is called at most \<open>n\<close> times (once per iteration that gets that far);
  a run that returns has made exactly \<open>n\<close> sampling calls, \<open>n\<close> estimates and \<open>n\<close> backward
  passes, and returns \<open>n\<close> values, whatever the estimates are.\<close>

theorem loop_runs_the_configured_number_of_iterations:
  assumes "train_estimator env critic_params data_params mi_params opt_params kwargs s = (r, s')"
    and "opt_params ''iterations'' = Some (PInt n)"
  shows "\<exists>new. events s' = events s @ new \<and> length (collect sample_rho new) \<le> nat n \<and>
           (\<forall>est. r = Inr est \<longrightarrow>
              length (collect sample_rho new) = nat n \<and>
              length (collect estimate_result new) = nat n \<and>
              length (collect backward_loss new) = nat n \<and> length est = nat n)"
  using assms(1)
proof (cases rule: train_estimator_cases)
  case (failed e)
  from prepare_any [OF failed(1)] obtain n0 where
    "events s' = events s @ n0" "collect training_call n0 = []"
    by blast
  with failed(2) show ?thesis
    by (intro exI [of _ n0]) (auto dest: set_up_log)
next
  case (trained c rhos s1)
  from prepare_Inr [OF trained(1)] have w: "wired c"
    by simp
  from prepare_any [OF trained(1)] obtain n0 where
    n0: "events s1 = events s @ n0" "collect training_call n0 = []"
    by blast
  from trained(2) have loop:
    "for_loop (iteration env c kwargs rhos data_params mi_params) [0..<nat n] [] s1 = (r, s')"
    by (simp add: training_eq [where opt_params = opt_params, OF assms(2)])
  from loop_any [OF w loop] obtain n1 where
    n1: "events s' = events s1 @ n1" "length (collect sample_rho n1) \<le> nat n"
    by fastforce
  have "length (collect sample_rho n1) = nat n \<and> length (collect estimate_result n1) = nat n \<and>
        length (collect backward_loss n1) = nat n \<and> length est = nat n"
    if "r = Inr est" for est
  proof -
    from loop that have l: "for_loop (iteration env c kwargs rhos data_params mi_params)
        [0..<nat n] [] s1 = (Inr est, s')"
      by simp
    from loop_Inr [OF w l] n1(1) have
      "collect sample_rho n1 = map ((!) rhos) [0..<nat n]"
      "map (negate env) (collect estimate_result n1) = map Inr (collect backward_loss n1)"
      "map (detach_cpu_numpy env) (collect estimate_result n1) = map Inr est"
      by auto
    moreover from for_loop_length [OF l] have "length est = nat n"
      by simp
    ultimately show ?thesis
      by (metis length_map length_upt minus_nat.diff_0)
  qed
  with n0 n1 show ?thesis
    by (intro exI [of _ "n0 @ n1"]) (auto simp: collect_append dest: set_up_log)
qed

theorem loop_runs_the_configured_number_of_iterations_witness:
  "opt_params0 2 ''iterations'' = Some (PInt 2) \<and>
   (\<exists>s'. train_estimator env0 critic_params0 data_params0
            (mi_params0 ''smile'' ''separable'' ''unnormalized'') (opt_params0 2) Map.empty s0
            = (Inr [10, 30], s') \<and>
          (\<exists>new. events s' = events s0 @ new \<and> length (collect sample_rho new) = nat 2 \<and>
             length (collect estimate_result new) = nat 2 \<and>
             length (collect backward_loss new) = nat 2)) \<and>
   opt_params0 3 ''iterations'' = Some (PInt 3) \<and>
   (\<exists>s3. train_estimator env0 critic_params0 data_params0
            (mi_params0 ''smile'' ''separable'' ''unnormalized'') (opt_params0 3) Map.empty s0
            = (Inl (Failure ''correlation out of range''), s3) \<and>
          (\<exists>new. events s3 = events s0 @ new \<and> length (collect sample_rho new) \<le> nat 3))"
proof -
  have it2: "opt_params0 2 ''iterations'' = Some (PInt 2)"
    and it3: "opt_params0 3 ''iterations'' = Some (PInt 3)"
    by (simp_all add: params0_maps)
  from run_two_iterations obtain s' where
    run: "train_estimator env0 critic_params0 data_params0
            (mi_params0 ''smile'' ''separable'' ''unnormalized'') (opt_params0 2) Map.empty s0
            = (Inr [10, 30], s')"
    by blast
  from loop_runs_the_configured_number_of_iterations [OF run it2]
  have 2: "\<exists>new. events s' = events s0 @ new \<and> length (collect sample_rho new) = nat 2 \<and>
             length (collect estimate_result new) = nat 2 \<and>
             length (collect backward_loss new) = nat 2"
    by auto
  from run_fails_in_third_iteration obtain s1 s2 s3 where
    parts: "prepare env0 critic_params0 data_params0
       (mi_params0 ''smile'' ''separable'' ''unnormalized'') (opt_params0 3) s0
       = (Inr (\<lparr>critic = 0, baseline = Module 1, opt_crit = Adam 0, opt_base = Some (Adam 1)\<rparr>,
               [5, 15, 25]), s1)"
     "for_loop (iteration env0
         \<lparr>critic = 0, baseline = Module 1, opt_crit = Adam 0, opt_base = Some (Adam 1)\<rparr>
         Map.empty [5, 15, 25] data_params0 (mi_params0 ''smile'' ''separable'' ''unnormalized''))
       [0..<2] [] s1 = (Inr [10, 30], s2)"
     "iteration env0 \<lparr>critic = 0, baseline = Module 1, opt_crit = Adam 0, opt_base = Some (Adam 1)\<rparr>
         Map.empty [5, 15, 25] data_params0 (mi_params0 ''smile'' ''separable'' ''unnormalized'')
         2 s2 = (Inl (Failure ''correlation out of range''), s3)"
    by blast
  have u: "[0..<nat 3] = [0..<2] @ [2]"
    by (simp add: numeral_3_eq_3 numeral_2_eq_2)
  from for_loop_abort [OF parts(2) parts(3), of "[]"]
  have "training env0 \<lparr>critic = 0, baseline = Module 1, opt_crit = Adam 0, opt_base = Some (Adam 1)\<rparr>
          Map.empty [5, 15, 25] data_params0 (mi_params0 ''smile'' ''separable'' ''unnormalized'')
          (opt_params0 3) s1 = (Inl (Failure ''correlation out of range''), s3)"
    by (simp only: training_eq [where opt_params = "opt_params0 3", OF it3] u)
  with parts(1)
  have run3: "train_estimator env0 critic_params0 data_params0
            (mi_params0 ''smile'' ''separable'' ''unnormalized'') (opt_params0 3) Map.empty s0
            = (Inl (Failure ''correlation out of range''), s3)"
    by (simp add: train_estimator_def and_then_apply)
  from loop_runs_the_configured_number_of_iterations [OF run3 it3]
  have 3: "\<exists>new. events s3 = events s0 @ new \<and> length (collect sample_rho new) \<le> nat 3"
    by auto
  from it2 it3 run 2 run3 3 show ?thesis
    by blast
qed

section \<open>The optimizers\<close>

text \<open>C7. The set-up gives the critic and the baseline an optimizer each, over its own
  parameters, and an optimizer to the baseline only when the baseline is a network (the
  closure is \<open>wired\<close>: \<^verbatim>\<open>opt_base\<close> is \<^verbatim>\<open>None\<close> otherwise). A step of the critic's
  optimizer changes no network but the critic; a step of the baseline's optimizer changes
  no network but the baseline, which is then a network other than the critic. In a
  training step, whatever its outcome, every optimizer step is on the critic or on the
  network of the baseline, and no other network changes; a step that returns has stepped
  the critic once and the baseline once if it is a network, not at all otherwise.\<close>

theorem optimizers_step_their_own_parameters:
  "(prepare env critic_params data_params mi_params opt_params s = (Inr (c, rhos), s1) \<longrightarrow>
      wired c) \<and>
   (wired c \<longrightarrow> step env (opt_crit c) s = (r, s') \<longrightarrow>
      (\<forall>a. a \<noteq> critic c \<longrightarrow> params s' a = params s a)) \<and>
   (wired c \<longrightarrow> opt_base c = Some ob \<longrightarrow> step env ob s = (r, s') \<longrightarrow>
      baseline c = Module (target ob) \<and> target ob \<noteq> critic c \<and>
      (\<forall>a. a \<noteq> target ob \<longrightarrow> params s' a = params s a)) \<and>
   (wired c \<longrightarrow> train_step env c kwargs rho data_params mi_params s = (r2, s2) \<longrightarrow>
      (\<exists>new. events s2 = events s @ new \<and>
         set (collect step_target new) \<subseteq> insert (critic c) (set (baseline_params (baseline c))) \<and>
         (\<forall>a. a \<noteq> critic c \<longrightarrow> a \<notin> set (baseline_params (baseline c)) \<longrightarrow>
              params s2 a = params s a) \<and>
         (\<forall>mi. r2 = Inr mi \<longrightarrow>
              collect step_target new = critic c # baseline_params (baseline c))))"
proof -
  have 1: "prepare env critic_params data_params mi_params opt_params s = (Inr (c, rhos), s1) \<longrightarrow>
      wired c"
    using prepare_Inr [of env critic_params data_params mi_params opt_params s c rhos s1]
    by simp
  have 2: "wired c \<longrightarrow> step env (opt_crit c) s = (r, s') \<longrightarrow>
      (\<forall>a. a \<noteq> critic c \<longrightarrow> params s' a = params s a)"
    using step_any [of env "opt_crit c" s r s'] by simp
  have 3: "wired c \<longrightarrow> opt_base c = Some ob \<longrightarrow> step env ob s = (r, s') \<longrightarrow>
      baseline c = Module (target ob) \<and> target ob \<noteq> critic c \<and>
      (\<forall>a. a \<noteq> target ob \<longrightarrow> params s' a = params s a)"
  proof (intro impI)
    assume w: "wired c" and ob: "opt_base c = Some ob" and st: "step env ob s = (r, s')"
    from w ob have "baseline c = Module (target ob) \<and> target ob \<noteq> critic c"
      by (cases "baseline c") auto
    with step_any [OF st]
    show "baseline c = Module (target ob) \<and> target ob \<noteq> critic c \<and>
        (\<forall>a. a \<noteq> target ob \<longrightarrow> params s' a = params s a)"
      by simp
  qed
  have 4: "wired c \<longrightarrow> train_step env c kwargs rho data_params mi_params s = (r2, s2) \<longrightarrow>
      (\<exists>new. events s2 = events s @ new \<and>
         set (collect step_target new) \<subseteq> insert (critic c) (set (baseline_params (baseline c))) \<and>
         (\<forall>a. a \<noteq> critic c \<longrightarrow> a \<notin> set (baseline_params (baseline c)) \<longrightarrow>
              params s2 a = params s a) \<and>
         (\<forall>mi. r2 = Inr mi \<longrightarrow>
              collect step_target new = critic c # baseline_params (baseline c)))"
  proof (intro impI)
    assume w: "wired c" and st: "train_step env c kwargs rho data_params mi_params s = (r2, s2)"
    from train_step_any [OF w st] obtain new where
      new: "events s2 = events s @ new"
        "\<forall>a. a \<noteq> critic c \<longrightarrow> a \<notin> set (baseline_params (baseline c)) \<longrightarrow>
             params s2 a = params s a"
      by blast
    from appendsD [OF appends_train_step_log [OF w] st] new(1)
    have "list_all (training_log c mi_params) new"
      by auto
    from training_log [OF this]
    have targets: "set (collect step_target new)
                     \<subseteq> insert (critic c) (set (baseline_params (baseline c)))"
      by simp
    have "collect step_target new = critic c # baseline_params (baseline c)"
      if "r2 = Inr mi" for mi
      using train_step_Inr [OF w, of env kwargs rho data_params mi_params s mi s2] st that new(1)
      by (cases "baseline c") (auto simp: collect_simps)
    with new targets
    show "\<exists>new. events s2 = events s @ new \<and>
           set (collect step_target new) \<subseteq> insert (critic c) (set (baseline_params (baseline c))) \<and>
           (\<forall>a. a \<noteq> critic c \<longrightarrow> a \<notin> set (baseline_params (baseline c)) \<longrightarrow>
                params s2 a = params s a) \<and>
           (\<forall>mi. r2 = Inr mi \<longrightarrow>
                collect step_target new = critic c # baseline_params (baseline c))"
      by blast
  qed
  from 1 2 3 4 show ?thesis
    by (intro conjI)
qed

text \<open>The first step of the notebook's configuration, and the first step with no learned
  baseline.\<close>

lemma run_first_step:
  "\<exists>s1 s2.
     prepare env0 critic_params0 data_params0 (mi_params0 ''smile'' ''separable'' ''unnormalized'')
       (opt_params0 2) s0
       = (Inr (\<lparr>critic = 0, baseline = Module 1, opt_crit = Adam 0, opt_base = Some (Adam 1)\<rparr>,
               [5, 15]), s1) \<and>
     params s1 = [0 \<mapsto> 100, 1 \<mapsto> 300] \<and>
     train_step env0 \<lparr>critic = 0, baseline = Module 1, opt_crit = Adam 0, opt_base = Some (Adam 1)\<rparr>
       Map.empty 5 data_params0 (mi_params0 ''smile'' ''separable'' ''unnormalized'') s1
       = (Inr 10, s2) \<and>
     params s2 = [0 \<mapsto> 110, 1 \<mapsto> 310] \<and>
     collect step_target (events s2) = [0, 1]"
  apply (rule exI)+
  apply (intro conjI)
      apply (simp add: run_simps)
     apply simp
    apply (simp add: run_simps)
   apply simp
  apply (simp add: collect_simps)
  done

lemma run_first_step_constant:
  "\<exists>s1 s2.
     prepare env0 critic_params0 data_params0 (mi_params0 ''smile'' ''separable'' ''constant'')
       (opt_params0 2) s0
       = (Inr (\<lparr>critic = 0, baseline = NoBaseline, opt_crit = Adam 0, opt_base = None\<rparr>,
               [5, 15]), s1) \<and>
     events s1 = [NewCritic (PStr ''separable'') PNone critic_params0,
                  NewBaseline (PStr ''constant''), NewAdam 0 (PVal 5)] \<and>
     train_step env0 \<lparr>critic = 0, baseline = NoBaseline, opt_crit = Adam 0, opt_base = None\<rparr>
       Map.empty 5 data_params0 (mi_params0 ''smile'' ''separable'' ''constant'') s1
       = (Inr 10, s2) \<and>
     collect step_target (events s2) = [0]"
  apply (rule exI)+
  apply (intro conjI)
     apply (simp add: run_simps)
    apply simp
   apply (simp add: run_simps)
  apply (simp add: collect_simps)
  done

theorem optimizers_step_their_own_parameters_witness:
  "wired \<lparr>critic = 0, baseline = Module 1, opt_crit = Adam 0, opt_base = Some (Adam 1)\<rparr> \<and>
   wired \<lparr>critic = 0, baseline = NoBaseline, opt_crit = Adam 0, opt_base = None\<rparr> \<and>
   (\<exists>s1 s2.
      prepare env0 critic_params0 data_params0 (mi_params0 ''smile'' ''separable'' ''unnormalized'')
        (opt_params0 2) s0
        = (Inr (\<lparr>critic = 0, baseline = Module 1, opt_crit = Adam 0, opt_base = Some (Adam 1)\<rparr>,
                [5, 15]), s1) \<and>
      train_step env0 \<lparr>critic = 0, baseline = Module 1, opt_crit = Adam 0, opt_base = Some (Adam 1)\<rparr>
        Map.empty 5 data_params0 (mi_params0 ''smile'' ''separable'' ''unnormalized'') s1
        = (Inr 10, s2) \<and>
      params s1 = [0 \<mapsto> 100, 1 \<mapsto> 300] \<and> params s2 = [0 \<mapsto> 110, 1 \<mapsto> 310] \<and>
      (\<exists>new. events s2 = events s1 @ new \<and> collect step_target new = [0, 1])) \<and>
   (\<exists>s1 s2.
      prepare env0 critic_params0 data_params0 (mi_params0 ''smile'' ''separable'' ''constant'')
        (opt_params0 2) s0
        = (Inr (\<lparr>critic = 0, baseline = NoBaseline, opt_crit = Adam 0, opt_base = None\<rparr>,
                [5, 15]), s1) \<and>
      train_step env0 \<lparr>critic = 0, baseline = NoBaseline, opt_crit = Adam 0, opt_base = None\<rparr>
        Map.empty 5 data_params0 (mi_params0 ''smile'' ''separable'' ''constant'') s1
        = (Inr 10, s2) \<and>
      (\<exists>new. events s2 = events s1 @ new \<and> collect step_target new = [0]))"
proof -
  let ?c = "\<lparr>critic = 0, baseline = Module 1, opt_crit = Adam 0, opt_base = Some (Adam 1)\<rparr>"
  let ?d = "\<lparr>critic = 0, baseline = NoBaseline, opt_crit = Adam 0, opt_base = None\<rparr>"
  from run_first_step obtain s1 s2 where
    1: "prepare env0 critic_params0 data_params0
          (mi_params0 ''smile'' ''separable'' ''unnormalized'') (opt_params0 2) s0
          = (Inr (?c, [5, 15]), s1)"
      "train_step env0 ?c Map.empty 5 data_params0
          (mi_params0 ''smile'' ''separable'' ''unnormalized'') s1 = (Inr 10, s2)"
      "params s1 = [0 \<mapsto> 100, 1 \<mapsto> 300]" "params s2 = [0 \<mapsto> 110, 1 \<mapsto> 310]"
    by blast
  note t = optimizers_step_their_own_parameters
    [where env = env0 and critic_params = critic_params0 and data_params = data_params0 and
      mi_params = "mi_params0 ''smile'' ''separable'' ''unnormalized''" and
      opt_params = "opt_params0 2" and s = s0 and c = ?c and rhos = "[5, 15]" and ?s1.0 = s1]
  from t 1(1) have w: "wired ?c"
    by blast
  from optimizers_step_their_own_parameters
    [where env = env0 and mi_params = "mi_params0 ''smile'' ''separable'' ''unnormalized''" and
      data_params = data_params0 and kwargs = Map.empty and rho = 5 and s = s1 and c = ?c and
      ?r2.0 = "Inr 10" and ?s2.0 = s2,
      THEN conjunct2, THEN conjunct2, THEN conjunct2, rule_format, OF w 1(2)]
  have n: "\<exists>new. events s2 = events s1 @ new \<and> collect step_target new = [0, 1]"
    by auto
  from run_first_step_constant obtain u1 u2 where
    2: "prepare env0 critic_params0 data_params0
          (mi_params0 ''smile'' ''separable'' ''constant'') (opt_params0 2) s0
          = (Inr (?d, [5, 15]), u1)"
      "train_step env0 ?d Map.empty 5 data_params0
          (mi_params0 ''smile'' ''separable'' ''constant'') u1 = (Inr 10, u2)"
    by blast
  from optimizers_step_their_own_parameters
    [where env = env0 and critic_params = critic_params0 and data_params = data_params0 and
      mi_params = "mi_params0 ''smile'' ''separable'' ''constant''" and
      opt_params = "opt_params0 2" and s = s0 and c = ?d and rhos = "[5, 15]" and ?s1.0 = u1]
    2(1)
  have v: "wired ?d"
    by blast
  from optimizers_step_their_own_parameters
    [where env = env0 and mi_params = "mi_params0 ''smile'' ''separable'' ''constant''" and
      data_params = data_params0 and kwargs = Map.empty and rho = 5 and s = u1 and c = ?d and
      ?r2.0 = "Inr 10" and ?s2.0 = u2,
      THEN conjunct2, THEN conjunct2, THEN conjunct2, rule_format, OF v 2(2)]
  have m: "\<exists>new. events u2 = events u1 @ new \<and> collect step_target new = [0]"
    by auto
  from w v 1 n 2 m show ?thesis
    by blast
qed

end
